theory Spec2Isabelle
  imports Complex_Main
begin

section \<open>Data model\<close>

text \<open>
  The drawing engine of \<^verbatim>\<open>src/components/canvas/CanvasEngine.ts\<close>.

  JavaScript numbers are modelled as rationals: the arithmetic of the engine (sums,
  differences, products, halving, absolute value) is exact there. Rounding, infinities
  and NaN of IEEE doubles are outside the model; a division by zero, which JavaScript
  answers with an infinity or NaN, is answered with \<open>0\<close> by HOL, so statements about
  \<open>getWorldPos\<close> carry the hypothesis that the zoom scale is not zero.
\<close>

datatype ToolType =
    Selection | Grab | Eraser | TextTool | FreeDrawTool
  | RectangleTool | EllipseTool | LineTool | ArrowTool | DiamondTool

text \<open>
  A shape is the object literal that \<open>handleMouseDown\<close> and \<open>handleTextEntry\<close> push:
  the common fields \<open>id, x, y, strokeWidth, strokeFill\<close>, the fields of its \<open>type\<close>,
  and the style fields, which are absent (\<open>None\<close>) where the literal of that type
  does not set them.
\<close>

datatype shape_kind =
    FreeDraw "(rat \<times> rat) list"  \<comment> \<open>\<open>points\<close>\<close>
  | Rectangle rat rat  \<comment> \<open>\<open>width, height\<close>\<close>
  | Ellipse rat rat  \<comment> \<open>\<open>radX, radY\<close>\<close>
  | Line rat rat  \<comment> \<open>\<open>toX, toY\<close>\<close>
  | Arrow rat rat  \<comment> \<open>\<open>toX, toY\<close>\<close>
  | Diamond rat rat  \<comment> \<open>\<open>width, height\<close>\<close>
  | TextShape rat rat string string string string
      \<comment> \<open>\<open>width, height, text, fontSize, fontFamily, textAlign\<close>\<close>

record shape =
  shape_id :: string
  shape_x :: rat
  shape_y :: rat
  shape_strokeWidth :: rat
  shape_strokeFill :: string
  kind :: shape_kind
  shape_bgFill :: "string option"
  shape_rounded :: "string option"
  shape_strokeStyle :: "string option"
  shape_roughStyle :: "rat option"
  shape_fillStyle :: "string option"

record rect =
  left :: rat
  top :: rat
  width :: rat
  height :: rat

record MouseEvent =
  clientX :: rat
  clientY :: rat
  buttons :: nat

text \<open>The matrix \<open>(a, b, c, d, e, f)\<close> handed to \<open>ctx.setTransform\<close>.\<close>

type_synonym transform = "rat \<times> rat \<times> rat \<times> rat \<times> rat \<times> rat"

text \<open>
  One call of \<open>render\<close>: the transform it sets, the shapes it draws in order, and the
  bounds of the selection box when it draws one.
\<close>

record 'b frame =
  frame_transform :: transform
  frame_shapes :: "shape list"
  frame_selectionBox :: "'b option"

text \<open>An inline text editor opened by \<open>handleTextEntry\<close> and not yet blurred.\<close>

record textarea =
  ta_left :: rat
  ta_top :: rat
  ta_worldX :: rat
  ta_worldY :: rat
  ta_color :: string

text \<open>
  The host environment the engine acts on: the clock and the timers of \<open>setTimeout\<close>
  (identifier and due time, in milliseconds), the remote store's record of
  \<open>saveCanvasElements\<close> calls and the number of them not yet settled, \<open>localStorage\<close>,
  the frames drawn, \<open>console.error\<close>, the DOM state the engine reads or sets, and the
  number of \<open>getCanvasElements\<close> calls not yet settled.
\<close>

record 'b host =
  now :: nat
  timers :: "(nat \<times> nat) list"
  timerCount :: nat
  remoteWrites :: "(string \<times> shape list) list"
  inflightSaves :: nat
  localStorage :: "string \<rightharpoonup> string"
  frames :: "'b frame list"
  consoleErrors :: "string list"
  canvasRect :: rect
  devicePixelRatio :: "rat option"
  cursor :: string
  textEditorContainer :: bool
  textareas :: "textarea list"
  inflightLoads :: nat

text \<open>The fields of class \<open>CanvasEngine\<close>, and the host it runs in.\<close>

record ('sc, 'b) engine =
  shapes :: "shape list"
  selectionController :: 'sc
  canvasId :: string
  readOnly :: bool
  activeTool :: ToolType
  isDrawing :: bool
  startX :: rat
  startY :: rat
  scale :: rat
  panX :: rat
  panY :: rat
  isPanning :: bool
  lastMouseX :: rat
  lastMouseY :: rat
  cachedCanvasRect :: "rect option"
  strokeWidth :: rat
  strokeFill :: string
  bgFill :: string
  strokeStyle :: string
  roughStyle :: rat
  fillStyle :: string
  fontFamily :: string
  fontSize :: string
  saveTimeoutId :: "nat option"
  host :: "'b host"

text \<open>
  The class \<open>SelectionController\<close> is imported by the engine and its file is not among
  the sources, so the engine is modelled over any controller: \<open>'sc\<close> is the controller's
  state, \<open>'b\<close> the bounds it computes, \<open>'h\<close> a resize handle, and the methods the engine
  calls are the fields of \<open>ops\<close>. \<open>updateDragging\<close> and \<open>updateResizing\<close> change the
  selected shape object in place; the scene holds that same object, so they are given
  the scene and return it.
\<close>

record ('sc, 'b, 'h) ops =
  setSelectedShape :: "shape option \<Rightarrow> 'sc \<Rightarrow> 'sc"
  getSelectedShape :: "'sc \<Rightarrow> shape option"
  getShapeBounds :: "shape \<Rightarrow> 'b"
  getResizeHandleAtPoint :: "rat \<Rightarrow> rat \<Rightarrow> 'b \<Rightarrow> 'h option"
  isPointInShape :: "rat \<Rightarrow> rat \<Rightarrow> shape \<Rightarrow> bool"
  startResizing :: "rat \<Rightarrow> rat \<Rightarrow> 'sc \<Rightarrow> 'sc"
  startDragging :: "rat \<Rightarrow> rat \<Rightarrow> 'sc \<Rightarrow> 'sc"
  isDraggingShape :: "'sc \<Rightarrow> bool"
  isResizingShape :: "'sc \<Rightarrow> bool"
  updateDragging :: "rat \<Rightarrow> rat \<Rightarrow> 'sc \<Rightarrow> shape list \<Rightarrow> 'sc \<times> shape list"
  updateResizing :: "rat \<Rightarrow> rat \<Rightarrow> 'sc \<Rightarrow> shape list \<Rightarrow> 'sc \<times> shape list"
  stopDragging :: "'sc \<Rightarrow> 'sc"
  stopResizing :: "'sc \<Rightarrow> 'sc"

section \<open>Coordinate system and rendering\<close>

text \<open>
  \<open>getWorldPos\<close>: the pointer position relative to the canvas rectangle (the cached one
  if there is one), then pan and zoom undone. The source also computes \<open>x_buffer\<close> and
  \<open>y_buffer\<close> and never uses them. The listeners are registered for mouse events only,
  so the \<open>touches\<close> branch is not reached.
\<close>

definition getWorldPos :: "MouseEvent \<Rightarrow> ('sc, 'b) engine \<Rightarrow> rat \<times> rat" where
  "getWorldPos ev e =
     (let rect = (case cachedCanvasRect e of Some r \<Rightarrow> r | None \<Rightarrow> canvasRect (host e));
          x_css = clientX ev - left rect;
          y_css = clientY ev - top rect
      in ((x_css - panX e) / scale e, (y_css - panY e) / scale e))"

text \<open>\<open>window.devicePixelRatio || 1\<close>: an absent or zero ratio reads as 1.\<close>

definition dprOf :: "'b host \<Rightarrow> rat" where
  "dprOf h = (case devicePixelRatio h of None \<Rightarrow> 1 | Some d \<Rightarrow> if d = 0 then 1 else d)"

definition renderTransform :: "('sc, 'b) engine \<Rightarrow> transform" where
  "renderTransform e =
     (let dpr = dprOf (host e)
      in (dpr * scale e, 0, 0, dpr * scale e, dpr * panX e, dpr * panY e))"

text \<open>
  \<open>render\<close> resets the transform, clears the buffer, sets the composed transform, draws
  every shape in scene order and, with the selection tool and a selected shape, the
  selection box around that shape's bounds. The model appends the frame to the host.
\<close>

definition render :: "('sc, 'b, 'h) ops \<Rightarrow> ('sc, 'b) engine \<Rightarrow> ('sc, 'b) engine" where
  "render sc e =
     (let box = (if activeTool e = Selection
                 then (case getSelectedShape sc (selectionController e) of
                         Some s \<Rightarrow> Some (getShapeBounds sc s)
                       | None \<Rightarrow> None)
                 else None);
          fr = \<lparr>frame_transform = renderTransform e, frame_shapes = shapes e,
                frame_selectionBox = box\<rparr>
      in e\<lparr>host := (host e)\<lparr>frames := frames (host e) @ [fr]\<rparr>\<rparr>)"

text \<open>
  What the canvas does with a transform \<open>(a, b, c, d, e, f)\<close>: the point \<open>(x, y)\<close> is
  drawn at buffer pixel \<open>(a x + c y + e, b x + d y + f)\<close>. On a canvas whose buffer is
  \<open>dpr\<close> times its CSS size, the display shows buffer pixel \<open>p\<close> at CSS offset \<open>p / dpr\<close>
  from the canvas corner, and a pointer over it has client coordinates offset by the
  corner of the canvas rectangle.
\<close>

definition applyTransform :: "transform \<Rightarrow> rat \<times> rat \<Rightarrow> rat \<times> rat" where
  "applyTransform t p =
     (case t of (a, b, c, d, e, f) \<Rightarrow>
        (a * fst p + c * snd p + e, b * fst p + d * snd p + f))"

definition pointerOver :: "('sc, 'b) engine \<Rightarrow> rat \<times> rat \<Rightarrow> MouseEvent" where
  "pointerOver e p =
     (let rect = (case cachedCanvasRect e of Some r \<Rightarrow> r | None \<Rightarrow> canvasRect (host e));
          dpr = dprOf (host e)
      in \<lparr>clientX = left rect + fst p / dpr, clientY = top rect + snd p / dpr, buttons = 0\<rparr>)"

section \<open>Persistence bridge\<close>

text \<open>
  \<open>setTimeout\<close> hands out a fresh identifier greater than zero and registers the timer
  with its due time; \<open>clearTimeout\<close> removes the timer of that identifier, if any.
\<close>

definition setTimeout :: "nat \<Rightarrow> 'b host \<Rightarrow> nat \<times> 'b host" where
  "setTimeout delay h =
     (let i = Suc (timerCount h)
      in (i, h\<lparr>timers := timers h @ [(i, now h + delay)], timerCount := i\<rparr>))"

definition clearTimeout :: "nat \<Rightarrow> 'b host \<Rightarrow> 'b host" where
  "clearTimeout i h = h\<lparr>timers := filter (\<lambda>t. fst t \<noteq> i) (timers h)\<rparr>"

text \<open>
  \<open>save\<close>: a truthy \<open>saveTimeoutId\<close> (not null, not 0) is cleared, and a timer that
  calls \<open>persistToStorage\<close> after 500 ms is set and remembered. Every timer of the model
  is such a timer.
\<close>

definition save :: "('sc, 'b) engine \<Rightarrow> ('sc, 'b) engine" where
  "save e =
     (let h1 = (case saveTimeoutId e of
                  Some i \<Rightarrow> if i \<noteq> 0 then clearTimeout i (host e) else host e
                | None \<Rightarrow> host e);
          (i, h2) = setTimeout 500 h1
      in e\<lparr>saveTimeoutId := Some i, host := h2\<rparr>)"

definition storageKey :: "('sc, 'b) engine \<Rightarrow> string" where
  "storageKey e = ''procastify_canvas_'' @ canvasId e"

text \<open>
  \<open>persistToStorage\<close> up to its \<open>await\<close>: behind the guard, the call of
  \<open>StorageService.saveCanvasElements(this.canvasId, this.shapes)\<close>, which the remote
  store records and which is then in flight.
\<close>

definition persistToStorage :: "('sc, 'b) engine \<Rightarrow> ('sc, 'b) engine" where
  "persistToStorage e =
     (if canvasId e = [] \<or> canvasId e = ''undefined'' \<or> readOnly e then e
      else e\<lparr>host := (host e)\<lparr>remoteWrites := remoteWrites (host e) @ [(canvasId e, shapes e)],
                              inflightSaves := Suc (inflightSaves (host e))\<rparr>\<rparr>)"

datatype outcome = Resolved | Rejected

text \<open>
  \<open>persistToStorage\<close> after its \<open>await\<close>, run when the remote call settles: nothing more
  when it resolved; when it rejected, the \<open>catch\<close> block logs and writes
  \<open>JSON.stringify(this.shapes)\<close>, the scene as it is by then, to \<open>localStorage\<close>. The
  first component is how the promise of \<open>persistToStorage\<close> itself settles.
  \<open>JSON.stringify\<close> is the parameter \<open>stringify\<close>.
\<close>

definition persistToStorage_await ::
  "(shape list \<Rightarrow> string) \<Rightarrow> outcome \<Rightarrow> ('sc, 'b) engine \<Rightarrow> outcome \<times> ('sc, 'b) engine" where
  "persistToStorage_await stringify r e =
     (let h = (host e)\<lparr>inflightSaves := inflightSaves (host e) - 1\<rparr>
      in case r of
           Resolved \<Rightarrow> (Resolved, e\<lparr>host := h\<rparr>)
         | Rejected \<Rightarrow>
             (Resolved,
              e\<lparr>host := h\<lparr>consoleErrors := consoleErrors h @ [''Failed to save shapes:''],
                          localStorage := (localStorage h)(storageKey e \<mapsto> stringify (shapes e))\<rparr>\<rparr>))"

text \<open>
  Time passes: the clock advances by \<open>d\<close> milliseconds and every timer that has come due
  fires, in the order the timers were set, each calling \<open>persistToStorage\<close>.
\<close>

definition elapse :: "nat \<Rightarrow> ('sc, 'b) engine \<Rightarrow> ('sc, 'b) engine" where
  "elapse d e =
     (let t = now (host e) + d;
          due = filter (\<lambda>tm. snd tm \<le> t) (timers (host e));
          e1 = e\<lparr>host := (host e)\<lparr>now := t,
                                  timers := filter (\<lambda>tm. \<not> snd tm \<le> t) (timers (host e))\<rparr>\<rparr>
      in fold (\<lambda>tm. persistToStorage) due e1)"

section \<open>Initialisation\<close>

text \<open>
  \<open>init\<close>: the scene is read from \<open>localStorage\<close> when the stored string is there and
  not empty; \<open>JSON.parse\<close> (the parameter \<open>parse\<close>, \<open>None\<close> where it throws) failing is
  logged and leaves the scene as it was. What parses is taken to be a sequence of shapes,
  as the source's types have it. After the first \<open>render\<close>, an engine that is not
  read-only starts the remote fetch.
\<close>

definition init ::
  "('sc, 'b, 'h) ops \<Rightarrow> (string \<Rightarrow> shape list option) \<Rightarrow> ('sc, 'b) engine \<Rightarrow> ('sc, 'b) engine" where
  "init sc parse e =
     (let e1 = (case localStorage (host e) (storageKey e) of
                  None \<Rightarrow> e
                | Some stored \<Rightarrow>
                    if stored = [] then e
                    else (case parse stored of
                            Some xs \<Rightarrow> e\<lparr>shapes := xs\<rparr>
                          | None \<Rightarrow>
                              e\<lparr>host := (host e)\<lparr>consoleErrors := consoleErrors (host e)
                                  @ [''Failed to load shapes from localStorage'']\<rparr>\<rparr>));
          e2 = render sc e1
      in if \<not> readOnly e2
         then e2\<lparr>host := (host e2)\<lparr>inflightLoads := Suc (inflightLoads (host e2))\<rparr>\<rparr>
         else e2)"

text \<open>What \<open>StorageService.getCanvasElements\<close> settles with.\<close>

datatype fetched = FetchRejected | FetchNull | FetchElements "shape list"

text \<open>\<open>loadFromFirestore\<close> after its \<open>await\<close>, run when the fetch settles.\<close>

definition loadFromFirestore_await ::
  "('sc, 'b, 'h) ops \<Rightarrow> fetched \<Rightarrow> ('sc, 'b) engine \<Rightarrow> ('sc, 'b) engine" where
  "loadFromFirestore_await sc r e =
     (let e0 = e\<lparr>host := (host e)\<lparr>inflightLoads := inflightLoads (host e) - 1\<rparr>\<rparr>
      in case r of
           FetchElements elements \<Rightarrow>
             if length elements > 0 then render sc (e0\<lparr>shapes := elements\<rparr>) else e0
         | FetchNull \<Rightarrow> e0
         | FetchRejected \<Rightarrow>
             e0\<lparr>host := (host e0)\<lparr>consoleErrors := consoleErrors (host e0)
                 @ [''Failed to load shapes from Firestore:'']\<rparr>\<rparr>)"

text \<open>
  The constructor: the field initialisers of the class, then \<open>init\<close>. The constant
  \<open>LOCALSTORAGE_CANVAS_KEY\<close> of \<^verbatim>\<open>./types\<close> and the state of a new
  \<open>SelectionController\<close> are parameters; an absent or empty \<open>canvasId\<close> is replaced by
  the constant.
\<close>

definition CanvasEngine ::
  "('sc, 'b, 'h) ops \<Rightarrow> (string \<Rightarrow> shape list option) \<Rightarrow> string \<Rightarrow> 'sc \<Rightarrow> 'b host
     \<Rightarrow> string option \<Rightarrow> bool \<Rightarrow> ('sc, 'b) engine" where
  "CanvasEngine sc parse LOCALSTORAGE_CANVAS_KEY newController h cid ro =
     init sc parse
       \<lparr>shapes = [], selectionController = newController,
        canvasId = (case cid of None \<Rightarrow> LOCALSTORAGE_CANVAS_KEY
                    | Some c \<Rightarrow> if c = [] then LOCALSTORAGE_CANVAS_KEY else c),
        readOnly = ro, activeTool = Selection, isDrawing = False, startX = 0, startY = 0,
        scale = 1, panX = 0, panY = 0, isPanning = False, lastMouseX = 0, lastMouseY = 0,
        cachedCanvasRect = None, strokeWidth = 2, strokeFill = ''#ffffff'',
        bgFill = ''transparent'', strokeStyle = ''solid'', roughStyle = 0,
        fillStyle = ''solid'', fontFamily = ''normal'', fontSize = ''Medium'',
        saveTimeoutId = None, host = h\<rparr>"

section \<open>API\<close>

definition loadElements ::
  "('sc, 'b, 'h) ops \<Rightarrow> shape list \<Rightarrow> ('sc, 'b) engine \<Rightarrow> ('sc, 'b) engine" where
  "loadElements sc elements e = render sc (e\<lparr>shapes := elements\<rparr>)"

definition addShapes ::
  "('sc, 'b, 'h) ops \<Rightarrow> shape list \<Rightarrow> ('sc, 'b) engine \<Rightarrow> ('sc, 'b) engine" where
  "addShapes sc elements e = save (render sc (e\<lparr>shapes := shapes e @ elements\<rparr>))"

definition setTool ::
  "('sc, 'b, 'h) ops \<Rightarrow> ToolType \<Rightarrow> ('sc, 'b) engine \<Rightarrow> ('sc, 'b) engine" where
  "setTool sc tool e =
     render sc
       (e\<lparr>activeTool := tool, isDrawing := False, isPanning := False,
          selectionController := setSelectedShape sc None (selectionController e),
          host := (host e)\<lparr>cursor := (if tool = Grab then ''grab'' else ''crosshair'')\<rparr>\<rparr>)"

definition setScale ::
  "('sc, 'b, 'h) ops \<Rightarrow> rat \<Rightarrow> ('sc, 'b) engine \<Rightarrow> ('sc, 'b) engine" where
  "setScale sc s e = render sc (e\<lparr>scale := s\<rparr>)"

definition clear :: "('sc, 'b, 'h) ops \<Rightarrow> ('sc, 'b) engine \<Rightarrow> ('sc, 'b) engine" where
  "clear sc e = render sc (save (e\<lparr>shapes := []\<rparr>))"

definition resize :: "('sc, 'b, 'h) ops \<Rightarrow> ('sc, 'b) engine \<Rightarrow> ('sc, 'b) engine" where
  "resize sc e = render sc (e\<lparr>cachedCanvasRect := None\<rparr>)"

section \<open>Input handling\<close>

text \<open>
  The shape a drawing tool pushes on pointer-down, of zero extent at the world point
  \<open>(x, y)\<close>; \<open>uid\<close> is what \<open>uuidv4()\<close> returns. Every literal sets \<open>strokeStyle\<close>;
  the other style fields are set by some tools only. The other tools have returned
  before.
\<close>

definition newShape ::
  "string \<Rightarrow> rat \<Rightarrow> rat \<Rightarrow> ('sc, 'b) engine \<Rightarrow> shape option" where
  "newShape uid x y e =
     (let base = (\<lambda>k bg rounded rough fill.
                    \<lparr>shape_id = uid, shape_x = x, shape_y = y,
                     shape_strokeWidth = strokeWidth e, shape_strokeFill = strokeFill e,
                     kind = k, shape_bgFill = bg, shape_rounded = rounded,
                     shape_strokeStyle = Some (strokeStyle e), shape_roughStyle = rough,
                     shape_fillStyle = fill\<rparr>)
      in if activeTool e = FreeDrawTool then
           Some (base (FreeDraw [(x, y)]) (Some (bgFill e)) None None (Some (fillStyle e)))
         else if activeTool e = RectangleTool then
           Some (base (Rectangle 0 0) (Some (bgFill e)) (Some ''sharp'')
                   (Some (roughStyle e)) (Some (fillStyle e)))
         else if activeTool e = EllipseTool then
           Some (base (Ellipse 0 0) (Some (bgFill e)) None
                   (Some (roughStyle e)) (Some (fillStyle e)))
         else if activeTool e = LineTool then
           Some (base (Line x y) None None (Some (roughStyle e)) None)
         else if activeTool e = ArrowTool then
           Some (base (Arrow x y) None None (Some (roughStyle e)) None)
         else if activeTool e = DiamondTool then
           Some (base (Diamond 0 0) (Some (bgFill e)) (Some ''sharp'')
                   (Some (roughStyle e)) (Some (fillStyle e)))
         else None)"

text \<open>
  \<open>handleTextEntry\<close> up to its listeners: without the editor container nothing happens;
  otherwise a textarea is opened at the pointer, remembering the world point. The
  textarea's font and its focus timer are not modelled.
\<close>

definition handleTextEntry ::
  "rat \<Rightarrow> rat \<Rightarrow> rat \<Rightarrow> rat \<Rightarrow> ('sc, 'b) engine \<Rightarrow> ('sc, 'b) engine" where
  "handleTextEntry cx cy worldX worldY e =
     (if \<not> textEditorContainer (host e) then e
      else e\<lparr>host := (host e)\<lparr>textareas := textareas (host e)
               @ [\<lparr>ta_left = cx, ta_top = cy, ta_worldX = worldX, ta_worldY = worldY,
                   ta_color = strokeFill e\<rparr>]\<rparr>\<rparr>)"

definition eraseAt ::
  "('sc, 'b, 'h) ops \<Rightarrow> rat \<Rightarrow> rat \<Rightarrow> shape list \<Rightarrow> shape list" where
  "eraseAt sc x y ss = filter (\<lambda>s. \<not> isPointInShape sc x y s) ss"

definition handleMouseDown ::
  "('sc, 'b, 'h) ops \<Rightarrow> MouseEvent \<Rightarrow> string \<Rightarrow> ('sc, 'b) engine \<Rightarrow> ('sc, 'b) engine" where
  "handleMouseDown sc ev uid e =
     (let e0 = e\<lparr>cachedCanvasRect := Some (canvasRect (host e)),
                 lastMouseX := clientX ev, lastMouseY := clientY ev\<rparr>
      in if activeTool e0 = Grab then
           e0\<lparr>isPanning := True, host := (host e0)\<lparr>cursor := ''grabbing''\<rparr>\<rparr>
         else
           let (x, y) = getWorldPos ev e0;
               e1 = e0\<lparr>startX := x, startY := y\<rparr>;
               ctrl = selectionController e1
           in if activeTool e1 = Eraser then
                render sc (save (e1\<lparr>shapes := eraseAt sc x y (shapes e1)\<rparr>))
              else if activeTool e1 = Selection then
                let selected = getSelectedShape sc ctrl;
                    onHandle = (case selected of
                                  Some sel \<Rightarrow>
                                    getResizeHandleAtPoint sc x y (getShapeBounds sc sel) \<noteq> None
                                | None \<Rightarrow> False);
                    onBody = (case selected of
                                Some sel \<Rightarrow> isPointInShape sc x y sel
                              | None \<Rightarrow> False)
                in if onHandle then e1\<lparr>selectionController := startResizing sc x y ctrl\<rparr>
                   else if onBody then e1\<lparr>selectionController := startDragging sc x y ctrl\<rparr>
                   else
                     let clickedShape = find (isPointInShape sc x y) (rev (shapes e1));
                         ctrl1 = setSelectedShape sc clickedShape ctrl;
                         ctrl2 = (if clickedShape \<noteq> None then startDragging sc x y ctrl1
                                  else ctrl1)
                     in render sc (e1\<lparr>selectionController := ctrl2\<rparr>)
              else if activeTool e1 = TextTool then
                handleTextEntry (clientX ev) (clientY ev) x y e1
              else
                let e2 = e1\<lparr>isDrawing := True\<rparr>
                in case newShape uid x y e2 of
                     Some s \<Rightarrow> e2\<lparr>shapes := shapes e2 @ [s]\<rparr>
                   | None \<Rightarrow> e2)"

text \<open>
  The drawing branch of \<open>handleMouseMove\<close> on the shape in progress, the last of the
  scene: its terminal fields follow the pointer at world point \<open>(x, y)\<close>.
\<close>

definition drawTo :: "rat \<Rightarrow> rat \<Rightarrow> rat \<Rightarrow> rat \<Rightarrow> shape \<Rightarrow> shape" where
  "drawTo sx sy x y currentShape =
     (case kind currentShape of
        FreeDraw points \<Rightarrow> currentShape\<lparr>kind := FreeDraw (points @ [(x, y)])\<rparr>
      | Rectangle w h \<Rightarrow> currentShape\<lparr>kind := Rectangle (x - sx) (y - sy)\<rparr>
      | Diamond w h \<Rightarrow> currentShape\<lparr>kind := Diamond (x - sx) (y - sy)\<rparr>
      | Ellipse rx ry \<Rightarrow>
          currentShape\<lparr>kind := Ellipse (\<bar>x - sx\<bar> / 2) (\<bar>y - sy\<bar> / 2),
                       shape_x := sx + (x - sx) / 2, shape_y := sy + (y - sy) / 2\<rparr>
      | Line tx ty \<Rightarrow> currentShape\<lparr>kind := Line x y\<rparr>
      | Arrow tx ty \<Rightarrow> currentShape\<lparr>kind := Arrow x y\<rparr>
      | TextShape w h t fs ff al \<Rightarrow> currentShape)"

definition handleMouseMove ::
  "('sc, 'b, 'h) ops \<Rightarrow> MouseEvent \<Rightarrow> ('sc, 'b) engine \<Rightarrow> ('sc, 'b) engine" where
  "handleMouseMove sc ev e =
     (let deltaX = clientX ev - lastMouseX e;
          deltaY = clientY ev - lastMouseY e;
          e0 = e\<lparr>lastMouseX := clientX ev, lastMouseY := clientY ev\<rparr>;
          ctrl = selectionController e0
      in if isPanning e0 \<and> activeTool e0 = Grab then
           render sc (e0\<lparr>panX := panX e0 + deltaX, panY := panY e0 + deltaY\<rparr>)
         else if activeTool e0 = Selection then
           let (x, y) = getWorldPos ev e0
           in if isDraggingShape sc ctrl then
                let (ctrl1, ss) = updateDragging sc x y ctrl (shapes e0)
                in render sc (e0\<lparr>selectionController := ctrl1, shapes := ss\<rparr>)
              else if isResizingShape sc ctrl then
                let (ctrl1, ss) = updateResizing sc x y ctrl (shapes e0)
                in render sc (e0\<lparr>selectionController := ctrl1, shapes := ss\<rparr>)
              else e0
         else if activeTool e0 = Eraser \<and> buttons ev = 1 then
           let (x, y) = getWorldPos ev e0;
               initialCount = length (shapes e0);
               e1 = e0\<lparr>shapes := eraseAt sc x y (shapes e0)\<rparr>
           in if length (shapes e1) < initialCount then render sc (save e1) else e1
         else if \<not> isDrawing e0 then e0
         else if activeTool e0 \<in> {Selection, Grab, Eraser, TextTool} then e0
         else
           let (x, y) = getWorldPos ev e0
           in case shapes e0 of
                [] \<Rightarrow> e0
              | _ # _ \<Rightarrow>
                  render sc
                    (e0\<lparr>shapes := butlast (shapes e0)
                         @ [drawTo (startX e0) (startY e0) x y (last (shapes e0))]\<rparr>))"

definition handleMouseUp :: "('sc, 'b, 'h) ops \<Rightarrow> ('sc, 'b) engine \<Rightarrow> ('sc, 'b) engine" where
  "handleMouseUp sc e =
     (let e0 = e\<lparr>cachedCanvasRect := None\<rparr>
      in if isPanning e0 then
           e0\<lparr>isPanning := False, host := (host e0)\<lparr>cursor := ''grab''\<rparr>\<rparr>
         else
           render sc
             (save (e0\<lparr>isDrawing := False,
                       selectionController :=
                         stopResizing sc (stopDragging sc (selectionController e0))\<rparr>)))"

text \<open>
  The \<open>blur\<close> listener of the \<open>i\<close>-th open textarea holding \<open>v\<close>: text that is not blank
  is committed as a text shape at the remembered world point, then saved and drawn; the
  textarea is removed either way. \<open>trim\<close> strips the ASCII white space.
\<close>

definition isSpace :: "char \<Rightarrow> bool" where
  "isSpace c = (c \<in> {CHR '' '', CHR 0x09, CHR 0x0A, CHR 0x0B, CHR 0x0C, CHR 0x0D})"

definition trim :: "string \<Rightarrow> string" where
  "trim v = rev (dropWhile isSpace (rev (dropWhile isSpace v)))"

definition handleBlur ::
  "('sc, 'b, 'h) ops \<Rightarrow> nat \<Rightarrow> string \<Rightarrow> string \<Rightarrow> ('sc, 'b) engine \<Rightarrow> ('sc, 'b) engine" where
  "handleBlur sc i v uid e =
     (if i \<ge> length (textareas (host e)) then e
      else
        let t = textareas (host e) ! i;
            e1 = (if trim v \<noteq> [] then
                    render sc
                      (save (e\<lparr>shapes := shapes e
                         @ [\<lparr>shape_id = uid, shape_x = ta_worldX t, shape_y = ta_worldY t,
                             shape_strokeWidth = 2, shape_strokeFill = strokeFill e,
                             kind = TextShape 0 0 v (fontSize e) (fontFamily e) ''left'',
                             shape_bgFill = None, shape_rounded = None,
                             shape_strokeStyle = None, shape_roughStyle = None,
                             shape_fillStyle = None\<rparr>]\<rparr>))
                  else e)
        in e1\<lparr>host := (host e1)\<lparr>textareas :=
                 take i (textareas (host e1)) @ drop (Suc i) (textareas (host e1))\<rparr>\<rparr>)"

section \<open>The engine as a transition system\<close>

text \<open>
  Everything that happens to an engine: the three pointer listeners, the blur of a
  textarea, the API calls, time passing, a remote call settling (only one that is in
  flight can), and the host changing the canvas rectangle or the device pixel ratio.
  \<open>destroy\<close>, which removes the listeners, is not modelled.
\<close>

datatype event =
    MouseDown MouseEvent string
  | MouseMove MouseEvent
  | MouseUp
  | Blur nat string string
  | SetTool ToolType
  | SetScale rat
  | AddShapes "shape list"
  | LoadElements "shape list"
  | Clear
  | Resize
  | Elapse nat
  | SaveSettled outcome
  | LoadSettled fetched
  | Layout rect "rat option"

definition step ::
  "('sc, 'b, 'h) ops \<Rightarrow> (shape list \<Rightarrow> string) \<Rightarrow> event \<Rightarrow> ('sc, 'b) engine
     \<Rightarrow> ('sc, 'b) engine" where
  "step sc stringify evt e =
     (case evt of
        MouseDown ev uid \<Rightarrow> handleMouseDown sc ev uid e
      | MouseMove ev \<Rightarrow> handleMouseMove sc ev e
      | MouseUp \<Rightarrow> handleMouseUp sc e
      | Blur i v uid \<Rightarrow> handleBlur sc i v uid e
      | SetTool tool \<Rightarrow> setTool sc tool e
      | SetScale s \<Rightarrow> setScale sc s e
      | AddShapes elements \<Rightarrow> addShapes sc elements e
      | LoadElements elements \<Rightarrow> loadElements sc elements e
      | Clear \<Rightarrow> clear sc e
      | Resize \<Rightarrow> resize sc e
      | Elapse d \<Rightarrow> elapse d e
      | SaveSettled r \<Rightarrow>
          if inflightSaves (host e) = 0 then e else snd (persistToStorage_await stringify r e)
      | LoadSettled r \<Rightarrow>
          if inflightLoads (host e) = 0 then e else loadFromFirestore_await sc r e
      | Layout r d \<Rightarrow> e\<lparr>host := (host e)\<lparr>canvasRect := r, devicePixelRatio := d\<rparr>\<rparr>)"

definition run ::
  "('sc, 'b, 'h) ops \<Rightarrow> (shape list \<Rightarrow> string) \<Rightarrow> event list \<Rightarrow> ('sc, 'b) engine
     \<Rightarrow> ('sc, 'b) engine" where
  "run sc stringify evts e = fold (step sc stringify) evts e"

section \<open>Debounced bursts\<close>

text \<open>
  A scene mutation as \<open>addShapes\<close> and \<open>clear\<close> perform it: the scene changes, \<open>save\<close> is
  called and the scene is drawn. A burst is a run of such mutations, each after the given
  number of milliseconds has passed since the one before.
\<close>

definition mutate ::
  "('sc, 'b, 'h) ops \<Rightarrow> (shape list \<Rightarrow> shape list) \<Rightarrow> ('sc, 'b) engine \<Rightarrow> ('sc, 'b) engine" where
  "mutate sc f e = render sc (save (e\<lparr>shapes := f (shapes e)\<rparr>))"

fun burst ::
  "('sc, 'b, 'h) ops \<Rightarrow> (nat \<times> (shape list \<Rightarrow> shape list)) list \<Rightarrow> ('sc, 'b) engine
     \<Rightarrow> ('sc, 'b) engine" where
  "burst sc [] e = e"
| "burst sc ((gap, f) # ms) e = burst sc ms (mutate sc f (elapse gap e))"

text \<open>
  The invariant of the timers: every pending timer is the one \<open>saveTimeoutId\<close> names, and
  its identifier is truthy.
\<close>

definition timersOk :: "('sc, 'b) engine \<Rightarrow> bool" where
  "timersOk e =
     list_all (\<lambda>tm. saveTimeoutId e = Some (fst tm) \<and> fst tm \<noteq> 0) (timers (host e))"

text \<open>The debounce timer is set and is the only timer: it is due 500 ms from now.\<close>

definition armed :: "('sc, 'b) engine \<Rightarrow> bool" where
  "armed e =
     (case saveTimeoutId e of
        None \<Rightarrow> False
      | Some i \<Rightarrow> i \<noteq> 0 \<and> timers (host e) = [(i, now (host e) + 500)])"

text \<open>The guard of \<open>persistToStorage\<close>.\<close>

definition persistenceOff :: "('sc, 'b) engine \<Rightarrow> bool" where
  "persistenceOff e = (canvasId e = [] \<or> canvasId e = ''undefined'' \<or> readOnly e)"

text \<open>What the persistence bridge has written: remotely, in flight, and locally.\<close>

definition written :: "('sc, 'b) engine \<Rightarrow> (string \<times> shape list) list \<times> nat \<times> (string \<rightharpoonup> string)" where
  "written e = (remoteWrites (host e), inflightSaves (host e), localStorage (host e))"

section \<open>A sample controller and sample values\<close>

text \<open>
  Modelled from the spec: the \<open>SelectionController\<close>, whose source is not among the files.
  This sample is used to run the model on concrete inputs only. It holds at most one
  selected shape and a drag or resize session with its origin; bounds are the normalised
  bounding box of a shape; a point hits a shape when it lies in that box; dragging moves
  the selected shape, found in the scene by its id, by the pointer's world delta. The
  sample has no resize handles.
\<close>

record controller =
  selectedShape :: "shape option"
  dragging :: bool
  resizing :: bool
  originX :: rat
  originY :: rat

type_synonym bounds = "rat \<times> rat \<times> rat \<times> rat"

definition spanOf :: "rat \<Rightarrow> rat \<Rightarrow> rat \<times> rat" where
  "spanOf a b = (min a b, max a b)"

definition shapeBounds :: "shape \<Rightarrow> bounds" where
  "shapeBounds s =
     (let x = shape_x s; y = shape_y s;
          box = (\<lambda>h v. (fst h, fst v, snd h, snd v))
      in case kind s of
           Rectangle w h \<Rightarrow> box (spanOf x (x + w)) (spanOf y (y + h))
         | Diamond w h \<Rightarrow> box (spanOf (x - w / 2) (x + w / 2)) (spanOf (y - h / 2) (y + h / 2))
         | Ellipse rx ry \<Rightarrow> box (spanOf (x - rx) (x + rx)) (spanOf (y - ry) (y + ry))
         | Line tx ty \<Rightarrow> box (spanOf x tx) (spanOf y ty)
         | Arrow tx ty \<Rightarrow> box (spanOf x tx) (spanOf y ty)
         | FreeDraw points \<Rightarrow>
             box (fold (\<lambda>p r. (min (fst p) (fst r), max (fst p) (snd r))) points (x, x))
                 (fold (\<lambda>p r. (min (snd p) (fst r), max (snd p) (snd r))) points (y, y))
         | TextShape w h t fs ff al \<Rightarrow> box (spanOf x (x + w)) (spanOf y (y + h)))"

definition pointInShape :: "rat \<Rightarrow> rat \<Rightarrow> shape \<Rightarrow> bool" where
  "pointInShape x y s =
     (case shapeBounds s of (x0, y0, x1, y1) \<Rightarrow> x0 \<le> x \<and> x \<le> x1 \<and> y0 \<le> y \<and> y \<le> y1)"

definition moveBy :: "rat \<Rightarrow> rat \<Rightarrow> shape \<Rightarrow> shape" where
  "moveBy dx dy s =
     (let s1 = s\<lparr>shape_x := shape_x s + dx, shape_y := shape_y s + dy\<rparr>
      in case kind s of
           Line tx ty \<Rightarrow> s1\<lparr>kind := Line (tx + dx) (ty + dy)\<rparr>
         | Arrow tx ty \<Rightarrow> s1\<lparr>kind := Arrow (tx + dx) (ty + dy)\<rparr>
         | _ \<Rightarrow> s1)"

definition dragTo :: "rat \<Rightarrow> rat \<Rightarrow> controller \<Rightarrow> shape list \<Rightarrow> controller \<times> shape list" where
  "dragTo x y c ss =
     (case selectedShape c of
        None \<Rightarrow> (c, ss)
      | Some sel \<Rightarrow>
          let dx = x - originX c; dy = y - originY c
          in (c\<lparr>selectedShape := Some (moveBy dx dy sel), originX := x, originY := y\<rparr>,
              map (\<lambda>s. if shape_id s = shape_id sel then moveBy dx dy s else s) ss))"

definition sampleOps :: "(controller, bounds, nat) ops" where
  "sampleOps =
     \<lparr>setSelectedShape = (\<lambda>s c. c\<lparr>selectedShape := s\<rparr>),
      getSelectedShape = selectedShape,
      getShapeBounds = shapeBounds,
      getResizeHandleAtPoint = (\<lambda>x y b. None),
      isPointInShape = pointInShape,
      startResizing = (\<lambda>x y c. c\<lparr>resizing := True, originX := x, originY := y\<rparr>),
      startDragging = (\<lambda>x y c. c\<lparr>dragging := True, originX := x, originY := y\<rparr>),
      isDraggingShape = dragging,
      isResizingShape = resizing,
      updateDragging = dragTo,
      updateResizing = (\<lambda>x y c ss. (c, ss)),
      stopDragging = (\<lambda>c. c\<lparr>dragging := False\<rparr>),
      stopResizing = (\<lambda>c. c\<lparr>resizing := False\<rparr>)\<rparr>"

definition newController :: controller where
  "newController =
     \<lparr>selectedShape = None, dragging = False, resizing = False, originX = 0, originY = 0\<rparr>"

text \<open>A sample serialisation: the ids of the shapes, each closed by a semicolon.\<close>

definition sampleStringify :: "shape list \<Rightarrow> string" where
  "sampleStringify ss = concat (map (\<lambda>s. shape_id s @ '';'') ss)"

text \<open>A rectangle as the rectangle tool leaves it, with default styles.\<close>

definition sampleRect :: "string \<Rightarrow> rat \<Rightarrow> rat \<Rightarrow> rat \<Rightarrow> rat \<Rightarrow> shape" where
  "sampleRect uid x y w h =
     \<lparr>shape_id = uid, shape_x = x, shape_y = y, shape_strokeWidth = 2,
      shape_strokeFill = ''#ffffff'', kind = Rectangle w h,
      shape_bgFill = Some ''transparent'', shape_rounded = Some ''sharp'',
      shape_strokeStyle = Some ''solid'', shape_roughStyle = Some 0,
      shape_fillStyle = Some ''solid''\<rparr>"

definition threeShapes :: "shape list" where
  "threeShapes =
     [sampleRect ''a'' 10 10 100 50, sampleRect ''b'' 200 10 40 40, sampleRect ''c'' 10 200 5 5]"

text \<open>
  A sample parser: the one string \<open>a;b;c;\<close> is the serialisation of \<open>threeShapes\<close>, the
  string \<open>[]\<close> that of the empty scene, and nothing else parses.
\<close>

definition sampleParse :: "string \<Rightarrow> shape list option" where
  "sampleParse str =
     (if str = ''a;b;c;'' then Some threeShapes else if str = ''[]'' then Some [] else None)"

text \<open>
  A sample host at time 0: no timers, nothing written, a canvas of 800 by 600 CSS pixels
  at the origin on a display of device pixel ratio 2, the text editor container present,
  and \<open>localStorage\<close> as given.
\<close>

definition sampleHost :: "(string \<rightharpoonup> string) \<Rightarrow> bounds host" where
  "sampleHost store =
     \<lparr>now = 0, timers = [], timerCount = 0, remoteWrites = [], inflightSaves = 0,
      localStorage = store, frames = [], consoleErrors = [],
      canvasRect = \<lparr>left = 0, top = 0, width = 800, height = 600\<rparr>,
      devicePixelRatio = Some 2, cursor = [], textEditorContainer = True, textareas = [],
      inflightLoads = 0\<rparr>"

text \<open>
  A sample engine: constructed for the canvas \<open>cid\<close> over a \<open>localStorage\<close> that holds
  the three sample shapes for it.
\<close>

definition sampleEngine :: "string \<Rightarrow> bool \<Rightarrow> (controller, bounds) engine" where
  "sampleEngine cid ro =
     CanvasEngine sampleOps sampleParse ''default'' newController
       (sampleHost [''procastify_canvas_'' @ cid \<mapsto> ''a;b;c;'']) (Some cid) ro"

text \<open>
  The sample engine in the middle of drawing an ellipse: the ellipse tool chosen, the
  pointer pressed at \<open>(100, 100)\<close>.
\<close>

definition drawingEllipse :: "(controller, bounds) engine" where
  "drawingEllipse =
     handleMouseDown sampleOps \<lparr>clientX = 100, clientY = 100, buttons = 1\<rparr> ''e1''
       (setTool sampleOps EllipseTool (sampleEngine ''c1'' False))"

text \<open>
  The sample engine with a remote write in flight: a fourth shape added, and the 500 ms
  of the debounce passed.
\<close>

definition saveInFlight :: "(controller, bounds) engine" where
  "saveInFlight =
     elapse 500 (addShapes sampleOps [sampleRect ''d'' 0 0 1 1] (sampleEngine ''c1'' False))"

text \<open>
  The sample engine after a click on the first sample shape with the selection tool, and
  the sample engine with the eraser chosen.
\<close>

definition shapeSelected :: "(controller, bounds) engine" where
  "shapeSelected =
     handleMouseUp sampleOps
       (handleMouseDown sampleOps \<lparr>clientX = 20, clientY = 20, buttons = 1\<rparr> ''u''
          (sampleEngine ''c1'' False))"

definition erasing :: "(controller, bounds) engine" where
  "erasing = setTool sampleOps Eraser (sampleEngine ''c1'' False)"

section \<open>Properties\<close>

subsection \<open>What \<open>render\<close> and \<open>save\<close> leave alone\<close>

lemma render_engine [simp]:
  "shapes (render sc e) = shapes e"
  "selectionController (render sc e) = selectionController e"
  "canvasId (render sc e) = canvasId e"
  "readOnly (render sc e) = readOnly e"
  "activeTool (render sc e) = activeTool e"
  "isPanning (render sc e) = isPanning e"
  "saveTimeoutId (render sc e) = saveTimeoutId e"
  by (simp_all add: render_def Let_def)

lemma render_host [simp]:
  "now (host (render sc e)) = now (host e)"
  "timers (host (render sc e)) = timers (host e)"
  "timerCount (host (render sc e)) = timerCount (host e)"
  "remoteWrites (host (render sc e)) = remoteWrites (host e)"
  "inflightSaves (host (render sc e)) = inflightSaves (host e)"
  "localStorage (host (render sc e)) = localStorage (host e)"
  "consoleErrors (host (render sc e)) = consoleErrors (host e)"
  "inflightLoads (host (render sc e)) = inflightLoads (host e)"
  by (simp_all add: render_def Let_def)

lemma render_frames:
  "frames (host (render sc e)) = frames (host e)
     @ [\<lparr>frame_transform = renderTransform e, frame_shapes = shapes e,
         frame_selectionBox =
           (if activeTool e = Selection
            then map_option (getShapeBounds sc) (getSelectedShape sc (selectionController e))
            else None)\<rparr>]"
  by (simp add: render_def Let_def map_option_case)

lemma save_engine [simp]:
  "shapes (save e) = shapes e"
  "selectionController (save e) = selectionController e"
  "canvasId (save e) = canvasId e"
  "readOnly (save e) = readOnly e"
  "activeTool (save e) = activeTool e"
  "isPanning (save e) = isPanning e"
  "saveTimeoutId (save e) = Some (Suc (timerCount (host e)))"
  by (simp_all add: save_def setTimeout_def clearTimeout_def Let_def split: option.split)

lemma save_host [simp]:
  "now (host (save e)) = now (host e)"
  "timerCount (host (save e)) = Suc (timerCount (host e))"
  "remoteWrites (host (save e)) = remoteWrites (host e)"
  "inflightSaves (host (save e)) = inflightSaves (host e)"
  "localStorage (host (save e)) = localStorage (host e)"
  "consoleErrors (host (save e)) = consoleErrors (host e)"
  "frames (host (save e)) = frames (host e)"
  "inflightLoads (host (save e)) = inflightLoads (host e)"
  by (simp_all add: save_def setTimeout_def clearTimeout_def Let_def split: option.split)

lemma save_schedules:
  "(Suc (timerCount (host e)), now (host e) + 500) \<in> set (timers (host (save e)))"
  by (simp add: save_def setTimeout_def clearTimeout_def Let_def split: option.split)

lemma save_timers:
  assumes "timersOk e"
  shows "timers (host (save e)) = [(Suc (timerCount (host e)), now (host e) + 500)]"
proof -
  have all: "\<forall>tm \<in> set (timers (host e)). saveTimeoutId e = Some (fst tm) \<and> fst tm \<noteq> 0"
    using assms by (simp add: timersOk_def list_all_iff)
  show ?thesis
  proof (cases "timers (host e)")
    case Nil
    then show ?thesis
      by (simp add: save_def setTimeout_def clearTimeout_def Let_def split: option.split)
  next
    case (Cons tm tms)
    with all have i: "saveTimeoutId e = Some (fst tm)" "fst tm \<noteq> 0" by simp_all
    from all i have "filter (\<lambda>t. fst t \<noteq> fst tm) (timers (host e)) = []"
      by (auto simp: filter_empty_conv)
    with i show ?thesis
      by (simp add: save_def setTimeout_def clearTimeout_def Let_def)
  qed
qed

lemma persistToStorage_off: "persistenceOff e \<Longrightarrow> persistToStorage e = e"
  by (simp add: persistToStorage_def persistenceOff_def)

lemma fold_persist_off:
  "persistenceOff e \<Longrightarrow> fold (\<lambda>tm. persistToStorage) tms e = e"
  by (induction tms) (simp_all add: persistToStorage_off)

lemma persistToStorage_engine [simp]:
  "shapes (persistToStorage e) = shapes e"
  "selectionController (persistToStorage e) = selectionController e"
  "canvasId (persistToStorage e) = canvasId e"
  "readOnly (persistToStorage e) = readOnly e"
  "activeTool (persistToStorage e) = activeTool e"
  "isPanning (persistToStorage e) = isPanning e"
  "saveTimeoutId (persistToStorage e) = saveTimeoutId e"
  by (simp_all add: persistToStorage_def)

lemma persistToStorage_host [simp]:
  "now (host (persistToStorage e)) = now (host e)"
  "timers (host (persistToStorage e)) = timers (host e)"
  "timerCount (host (persistToStorage e)) = timerCount (host e)"
  "localStorage (host (persistToStorage e)) = localStorage (host e)"
  "consoleErrors (host (persistToStorage e)) = consoleErrors (host e)"
  "frames (host (persistToStorage e)) = frames (host e)"
  "inflightLoads (host (persistToStorage e)) = inflightLoads (host e)"
  by (simp_all add: persistToStorage_def)

lemma persistenceOff_persistToStorage [simp]:
  "persistenceOff (persistToStorage e) = persistenceOff e"
  by (simp add: persistenceOff_def)

subsection \<open>Coordinate round-trip\<close>

lemma dprOf_nonzero: "dprOf h \<noteq> 0"
  by (simp add: dprOf_def split: option.split)

text \<open>
  C1 (coordinate round-trip). Whatever the pan, the device pixel ratio and the canvas
  rectangle, and for every zoom scale other than zero: a world point sent through the
  transform of \<open>render\<close> to its buffer pixel, and the pointer over that pixel sent through
  \<open>getWorldPos\<close>, is the world point again, exactly over the rationals.
\<close>

theorem coordinate_round_trip:
  assumes "scale e \<noteq> 0"
  shows "getWorldPos (pointerOver e (applyTransform (renderTransform e) (wx, wy))) e = (wx, wy)"
proof -
  have d: "dprOf (host e) \<noteq> 0" by (rule dprOf_nonzero)
  have "(dprOf (host e) * scale e * w + dprOf (host e) * p) / dprOf (host e) = scale e * w + p"
    for w p :: rat
    using d by (simp add: field_simps)
  then show ?thesis
    using assms by (simp add: getWorldPos_def pointerOver_def applyTransform_def
        renderTransform_def Let_def)
qed

theorem coordinate_round_trip_witness:
  "scale (setScale sampleOps 3 (sampleEngine ''c1'' False)) \<noteq> 0
   \<and> getWorldPos
        (pointerOver (setScale sampleOps 3 (sampleEngine ''c1'' False))
           (applyTransform (renderTransform (setScale sampleOps 3 (sampleEngine ''c1'' False)))
              (7, 5 / 3)))
        (setScale sampleOps 3 (sampleEngine ''c1'' False)) = (7, 5 / 3)"
proof -
  have h: "scale (setScale sampleOps 3 (sampleEngine ''c1'' False)) \<noteq> 0"
    by code_simp
  show ?thesis
    using h coordinate_round_trip [OF h, of 7 "5 / 3"] by simp
qed

subsection \<open>Drawing an ellipse\<close>

text \<open>
  C8 (ellipse drawing). On a pointer-move while a shape is being drawn with a drawing
  tool and the shape in progress, the last of the scene, is an ellipse: with \<open>(x, y)\<close>
  the pointer's world position, the ellipse's anchor becomes the midpoint of the start
  point and \<open>(x, y)\<close>, its radii become half the absolute drag extents, so that each
  radius is the distance from the new anchor to the pointer; its other fields and the
  shapes before it stay as they are.
\<close>

theorem ellipse_drawing:
  assumes "isDrawing e"
    and "activeTool e \<notin> {Selection, Grab, Eraser, TextTool}"
    and "shapes e = ss @ [cur]"
    and "kind cur = Ellipse rx ry"
    and "getWorldPos ev e = (x, y)"
  shows "\<exists>s. shapes (handleMouseMove sc ev e) = ss @ [s]
           \<and> shape_x s = (startX e + x) / 2 \<and> shape_y s = (startY e + y) / 2
           \<and> kind s = Ellipse (\<bar>x - startX e\<bar> / 2) (\<bar>y - startY e\<bar> / 2)
           \<and> \<bar>x - shape_x s\<bar> = \<bar>x - startX e\<bar> / 2 \<and> \<bar>y - shape_y s\<bar> = \<bar>y - startY e\<bar> / 2
           \<and> s = cur\<lparr>kind := kind s, shape_x := shape_x s, shape_y := shape_y s\<rparr>"
proof -
  let ?e0 = "e\<lparr>lastMouseX := clientX ev, lastMouseY := clientY ev\<rparr>"
  have w: "getWorldPos ev ?e0 = (x, y)"
    using assms(5) by (simp add: getWorldPos_def split: option.splits)
  have "shapes (handleMouseMove sc ev e)
      = (if shapes e = [] then []
         else butlast (shapes e) @ [drawTo (startX e) (startY e) x y (last (shapes e))])"
    using assms(1,2) w
    by (simp add: handleMouseMove_def Let_def split: list.split)
  then have mv: "shapes (handleMouseMove sc ev e)
      = ss @ [drawTo (startX e) (startY e) x y cur]"
    by (simp add: assms(3))
  have half: "\<bar>a - (b + (a - b) / 2)\<bar> = \<bar>a - b\<bar> / 2" for a b :: rat
  proof -
    have "a - (b + (a - b) / 2) = (a - b) / 2" by (simp add: field_simps)
    then have "\<bar>a - (b + (a - b) / 2)\<bar> = \<bar>(a - b) / 2\<bar>" by (rule arg_cong)
    also have "\<dots> = \<bar>a - b\<bar> / 2" by (simp only: abs_divide abs_numeral)
    finally show ?thesis .
  qed
  have mid: "b + (a - b) / 2 = (b + a) / 2" for a b :: rat
    by (simp add: field_simps)
  show ?thesis
    unfolding mv using assms(4) half
    by (simp add: drawTo_def mid [symmetric])
qed

lemma drawingEllipse_fields:
  "isDrawing drawingEllipse"
  "activeTool drawingEllipse = EllipseTool"
  "startX drawingEllipse = 100" "startY drawingEllipse = 100"
  "shapes drawingEllipse = threeShapes @ [last (shapes drawingEllipse)]"
  "kind (last (shapes drawingEllipse)) = Ellipse 0 0"
  "getWorldPos \<lparr>clientX = 160, clientY = 140, buttons = 1\<rparr> drawingEllipse = (160, 140)"
  by code_simp+

theorem ellipse_drawing_witness:
  "isDrawing drawingEllipse
   \<and> activeTool drawingEllipse \<notin> {Selection, Grab, Eraser, TextTool}
   \<and> shapes drawingEllipse = threeShapes @ [last (shapes drawingEllipse)]
   \<and> kind (last (shapes drawingEllipse)) = Ellipse 0 0
   \<and> getWorldPos \<lparr>clientX = 160, clientY = 140, buttons = 1\<rparr> drawingEllipse = (160, 140)
   \<and> (\<exists>s. shapes (handleMouseMove sampleOps \<lparr>clientX = 160, clientY = 140, buttons = 1\<rparr>
                 drawingEllipse) = threeShapes @ [s]
          \<and> shape_x s = 130 \<and> shape_y s = 120 \<and> kind s = Ellipse 30 20)"
proof -
  have t: "activeTool drawingEllipse \<notin> {Selection, Grab, Eraser, TextTool}"
    by (simp add: drawingEllipse_fields)
  from ellipse_drawing [OF drawingEllipse_fields(1) t drawingEllipse_fields(5,6,7), of sampleOps]
  obtain s where
    "shapes (handleMouseMove sampleOps \<lparr>clientX = 160, clientY = 140, buttons = 1\<rparr>
       drawingEllipse) = threeShapes @ [s]"
    "shape_x s = (startX drawingEllipse + 160) / 2"
    "shape_y s = (startY drawingEllipse + 140) / 2"
    "kind s = Ellipse (\<bar>160 - startX drawingEllipse\<bar> / 2) (\<bar>140 - startY drawingEllipse\<bar> / 2)"
    by blast
  then have "shapes (handleMouseMove sampleOps \<lparr>clientX = 160, clientY = 140, buttons = 1\<rparr>
       drawingEllipse) = threeShapes @ [s]
     \<and> shape_x s = 130 \<and> shape_y s = 120 \<and> kind s = Ellipse 30 20"
    by (simp add: drawingEllipse_fields)
  then show ?thesis
    using t drawingEllipse_fields by blast
qed

subsection \<open>Reconciliation on load\<close>

lemma init_shapes:
  "shapes (init sc parse e) =
     (case localStorage (host e) (storageKey e) of
        None \<Rightarrow> shapes e
      | Some stored \<Rightarrow>
          if stored = [] then shapes e
          else (case parse stored of Some xs \<Rightarrow> xs | None \<Rightarrow> shapes e))"
  by (simp add: init_def Let_def split: option.split)

text \<open>
  C2 (reconciliation-on-load). The constructor leaves the scene that \<open>localStorage\<close>
  holds under the canvas's key (the empty scene when nothing is stored, the stored
  string is empty or does not parse), and starts the remote fetch unless the engine is
  read-only. When the fetch settles, the scene becomes the fetched sequence if that is
  not empty and stays as it is otherwise: after a rejection, after a null result, and
  after a result of zero shapes, whatever the scene is by then.
\<close>

theorem reconciliation_on_load:
  "shapes (CanvasEngine sc parse dflt ctrl h cid ro) =
     (case localStorage h (''procastify_canvas_''
             @ (case cid of None \<Rightarrow> dflt | Some c \<Rightarrow> if c = [] then dflt else c)) of
        None \<Rightarrow> []
      | Some stored \<Rightarrow>
          if stored = [] then [] else (case parse stored of Some xs \<Rightarrow> xs | None \<Rightarrow> []))
   \<and> inflightLoads (host (CanvasEngine sc parse dflt ctrl h cid ro))
       = (if ro then inflightLoads h else Suc (inflightLoads h))
   \<and> shapes (loadFromFirestore_await sc r e) =
       (case r of
          FetchElements elements \<Rightarrow> if elements = [] then shapes e else elements
        | FetchNull \<Rightarrow> shapes e
        | FetchRejected \<Rightarrow> shapes e)
   \<and> shapes (loadFromFirestore_await sc (FetchElements []) e) = shapes e
   \<and> shapes (step sc stringify (LoadSettled (FetchElements [])) e) = shapes e"
proof -
  have 1: "shapes (CanvasEngine sc parse dflt ctrl h cid ro) =
     (case localStorage h (''procastify_canvas_''
             @ (case cid of None \<Rightarrow> dflt | Some c \<Rightarrow> if c = [] then dflt else c)) of
        None \<Rightarrow> []
      | Some stored \<Rightarrow>
          if stored = [] then [] else (case parse stored of Some xs \<Rightarrow> xs | None \<Rightarrow> []))"
    by (simp add: CanvasEngine_def init_shapes storageKey_def split: option.split)
  have 2: "inflightLoads (host (CanvasEngine sc parse dflt ctrl h cid ro))
       = (if ro then inflightLoads h else Suc (inflightLoads h))"
    by (simp add: CanvasEngine_def init_def Let_def split: option.split)
  have 3: "shapes (loadFromFirestore_await sc r e) =
       (case r of
          FetchElements elements \<Rightarrow> if elements = [] then shapes e else elements
        | FetchNull \<Rightarrow> shapes e
        | FetchRejected \<Rightarrow> shapes e)"
    by (simp add: loadFromFirestore_await_def Let_def split: fetched.split)
  have 4: "shapes (loadFromFirestore_await sc (FetchElements []) e) = shapes e"
    by (simp add: loadFromFirestore_await_def Let_def)
  have 5: "shapes (step sc stringify (LoadSettled (FetchElements [])) e) = shapes e"
    by (simp add: step_def 4)
  from 1 2 3 4 5 show ?thesis by blast
qed

theorem reconciliation_on_load_witness:
  "shapes (sampleEngine ''c1'' False) = threeShapes
   \<and> length threeShapes = 3
   \<and> inflightLoads (host (sampleEngine ''c1'' False)) = 1
   \<and> shapes (step sampleOps sampleStringify (LoadSettled (FetchElements []))
        (sampleEngine ''c1'' False)) = threeShapes"
proof -
  have f: "shapes (sampleEngine ''c1'' False) = threeShapes" "length threeShapes = 3"
    "inflightLoads (host (sampleEngine ''c1'' False)) = 1"
    by code_simp+
  from reconciliation_on_load [of sampleOps sampleParse "''default''" newController
      "sampleHost [''procastify_canvas_c1'' \<mapsto> ''a;b;c;'']" "Some ''c1''" False
      "FetchElements []" "sampleEngine ''c1'' False" sampleStringify]
  have "shapes (step sampleOps sampleStringify (LoadSettled (FetchElements []))
        (sampleEngine ''c1'' False)) = shapes (sampleEngine ''c1'' False)"
    by blast
  with f show ?thesis by simp
qed

subsection \<open>Fallback on failure\<close>

text \<open>
  C4 (fallback-on-failure). When a remote write is in flight and it rejects, the engine
  stores the serialisation of the scene it holds at that moment in \<open>localStorage\<close>
  under \<open>procastify_canvas_\<close> followed by the canvas identifier and changes no other
  key, the scene itself stays as it is, the failure is logged, and the promise of
  \<open>persistToStorage\<close> resolves: nothing is thrown on.
\<close>

theorem fallback_on_failure:
  assumes "inflightSaves (host e) \<noteq> 0"
  shows "localStorage (host (step sc stringify (SaveSettled Rejected) e))
       = (localStorage (host e))(''procastify_canvas_'' @ canvasId e \<mapsto> stringify (shapes e))
    \<and> shapes (step sc stringify (SaveSettled Rejected) e) = shapes e
    \<and> consoleErrors (host (step sc stringify (SaveSettled Rejected) e))
       = consoleErrors (host e) @ [''Failed to save shapes:'']
    \<and> fst (persistToStorage_await stringify Rejected e) = Resolved"
  using assms by (simp add: step_def persistToStorage_await_def storageKey_def Let_def)

theorem fallback_on_failure_witness:
  "inflightSaves (host saveInFlight) \<noteq> 0
   \<and> remoteWrites (host saveInFlight) = [(''c1'', threeShapes @ [sampleRect ''d'' 0 0 1 1])]
   \<and> localStorage (host saveInFlight) ''procastify_canvas_c1'' = Some ''a;b;c;''
   \<and> localStorage (host (step sampleOps sampleStringify (SaveSettled Rejected) saveInFlight))
        ''procastify_canvas_c1'' = Some ''a;b;c;d;''
   \<and> sampleStringify (shapes (step sampleOps sampleStringify (SaveSettled Rejected) saveInFlight))
        = ''a;b;c;d;''"
proof -
  have h: "inflightSaves (host saveInFlight) \<noteq> 0" by code_simp
  have f: "remoteWrites (host saveInFlight) = [(''c1'', threeShapes @ [sampleRect ''d'' 0 0 1 1])]"
    "localStorage (host saveInFlight) ''procastify_canvas_c1'' = Some ''a;b;c;''"
    "canvasId saveInFlight = ''c1''"
    "sampleStringify (shapes saveInFlight) = ''a;b;c;d;''"
    by code_simp+
  show ?thesis
    using h f fallback_on_failure [OF h, of sampleOps sampleStringify] by simp
qed

subsection \<open>The persistence guard\<close>

text \<open>
  C9 (persistence guard). When the canvas identifier is empty or is the string
  \<open>undefined\<close>, or the engine is read-only, \<open>persistToStorage\<close> returns the engine as it
  is; so however much time passes and however many timers fire, no remote write is
  recorded or in flight, \<open>localStorage\<close> is not written, and the scene is unchanged.
\<close>

theorem persistence_guard:
  assumes "canvasId e = [] \<or> canvasId e = ''undefined'' \<or> readOnly e"
  shows "persistToStorage e = e
    \<and> remoteWrites (host (elapse d e)) = remoteWrites (host e)
    \<and> inflightSaves (host (elapse d e)) = inflightSaves (host e)
    \<and> localStorage (host (elapse d e)) = localStorage (host e)
    \<and> shapes (elapse d e) = shapes e"
proof -
  have off: "persistenceOff e" using assms by (simp add: persistenceOff_def)
  let ?e1 = "e\<lparr>host := (host e)\<lparr>now := now (host e) + d,
      timers := filter (\<lambda>tm. \<not> snd tm \<le> now (host e) + d) (timers (host e))\<rparr>\<rparr>"
  have "persistenceOff ?e1" using off by (simp add: persistenceOff_def)
  then have "elapse d e = ?e1"
    by (simp add: elapse_def Let_def fold_persist_off)
  then show ?thesis using off by (simp add: persistToStorage_off)
qed

theorem persistence_guard_witness:
  "(canvasId (addShapes sampleOps [] (sampleEngine ''c1'' True)) = []
      \<or> canvasId (addShapes sampleOps [] (sampleEngine ''c1'' True)) = ''undefined''
      \<or> readOnly (addShapes sampleOps [] (sampleEngine ''c1'' True)))
   \<and> timers (host (addShapes sampleOps [] (sampleEngine ''c1'' True))) = [(1, 500)]
   \<and> remoteWrites (host (elapse 500 (addShapes sampleOps [] (sampleEngine ''c1'' True)))) = []
   \<and> localStorage (host (elapse 500 (addShapes sampleOps [] (sampleEngine ''c1'' True))))
       = localStorage (host (addShapes sampleOps [] (sampleEngine ''c1'' True)))"
proof -
  have h: "canvasId (addShapes sampleOps [] (sampleEngine ''c1'' True)) = []
      \<or> canvasId (addShapes sampleOps [] (sampleEngine ''c1'' True)) = ''undefined''
      \<or> readOnly (addShapes sampleOps [] (sampleEngine ''c1'' True))"
    by code_simp
  have t: "timers (host (addShapes sampleOps [] (sampleEngine ''c1'' True))) = [(1, 500)]"
    by code_simp
  have w: "remoteWrites (host (addShapes sampleOps [] (sampleEngine ''c1'' True))) = []"
    by code_simp
  show ?thesis
    using h t w persistence_guard [OF h, of 500] by simp
qed

subsection \<open>Pointer-up\<close>

text \<open>
  C10 (pointer-up always persists). A pointer-up that does not end a pan session sets
  the debounce timer, due 500 ms from now, remembers it in \<open>saveTimeoutId\<close>, draws one
  frame showing the scene, and leaves the scene as it is. In particular a click with
  the selection tool, pointer-down and pointer-up at any point, leaves the scene
  unchanged and yet sets that timer.
\<close>

theorem pointer_up_always_persists:
  assumes "\<not> isPanning e"
  shows "(Suc (timerCount (host e)), now (host e) + 500) \<in> set (timers (host (handleMouseUp sc e)))
    \<and> saveTimeoutId (handleMouseUp sc e) = Some (Suc (timerCount (host e)))
    \<and> shapes (handleMouseUp sc e) = shapes e
    \<and> length (frames (host (handleMouseUp sc e))) = Suc (length (frames (host e)))
    \<and> frame_shapes (last (frames (host (handleMouseUp sc e)))) = shapes e
    \<and> (activeTool e = Selection \<longrightarrow>
         shapes (handleMouseUp sc (handleMouseDown sc ev uid e)) = shapes e
       \<and> (Suc (timerCount (host e)), now (host e) + 500)
               \<in> set (timers (host (handleMouseUp sc (handleMouseDown sc ev uid e)))))"
proof -
  have up: "handleMouseUp sc e' = render sc (save (e'\<lparr>cachedCanvasRect := None, isDrawing := False,
      selectionController := stopResizing sc (stopDragging sc (selectionController e'))\<rparr>))"
    if "\<not> isPanning e'" for e' :: "('a, 'b) engine"
    using that by (simp add: handleMouseUp_def Let_def)
  have sched: "(Suc (timerCount (host e')), now (host e') + 500)
      \<in> set (timers (host (handleMouseUp sc e')))"
    if "\<not> isPanning e'" for e' :: "('a, 'b) engine"
    using save_schedules [of "e'\<lparr>cachedCanvasRect := None, isDrawing := False,
      selectionController := stopResizing sc (stopDragging sc (selectionController e'))\<rparr>"]
    by (simp add: up [OF that])
  have a: "(Suc (timerCount (host e)), now (host e) + 500)
      \<in> set (timers (host (handleMouseUp sc e)))"
    by (rule sched [OF assms])
  have b: "saveTimeoutId (handleMouseUp sc e) = Some (Suc (timerCount (host e)))"
    "shapes (handleMouseUp sc e) = shapes e"
    "length (frames (host (handleMouseUp sc e))) = Suc (length (frames (host e)))"
    "frame_shapes (last (frames (host (handleMouseUp sc e)))) = shapes e"
    by (simp_all add: up [OF assms] render_frames)
  have c: "shapes (handleMouseUp sc (handleMouseDown sc ev uid e)) = shapes e
       \<and> (Suc (timerCount (host e)), now (host e) + 500)
               \<in> set (timers (host (handleMouseUp sc (handleMouseDown sc ev uid e))))"
    if sel: "activeTool e = Selection"
  proof -
    let ?d = "handleMouseDown sc ev uid e"
    have d: "\<not> isPanning ?d" "shapes ?d = shapes e" "now (host ?d) = now (host e)"
      "timerCount (host ?d) = timerCount (host e)" "saveTimeoutId ?d = saveTimeoutId e"
      "timers (host ?d) = timers (host e)"
      using sel assms
      by (simp_all add: handleMouseDown_def Let_def split: prod.split)
    from sched [OF d(1)] d have 1: "(Suc (timerCount (host e)), now (host e) + 500)
        \<in> set (timers (host (handleMouseUp sc ?d)))" by simp
    have 2: "shapes (handleMouseUp sc ?d) = shapes e"
      by (simp add: up [OF d(1)] d)
    from 1 2 show ?thesis by simp
  qed
  from a b c show ?thesis by blast
qed


theorem pointer_up_always_persists_witness:
  "\<not> isPanning (sampleEngine ''c1'' False)
   \<and> activeTool (sampleEngine ''c1'' False) = Selection
   \<and> timers (host (sampleEngine ''c1'' False)) = []
   \<and> (1, 500) \<in> set (timers (host (handleMouseUp sampleOps (sampleEngine ''c1'' False))))
   \<and> shapes (handleMouseUp sampleOps (sampleEngine ''c1'' False)) = threeShapes
   \<and> shapes (handleMouseUp sampleOps
         (handleMouseDown sampleOps \<lparr>clientX = 700, clientY = 500, buttons = 1\<rparr> ''u''
            (sampleEngine ''c1'' False))) = threeShapes
   \<and> (1, 500) \<in> set (timers (host (handleMouseUp sampleOps
         (handleMouseDown sampleOps \<lparr>clientX = 700, clientY = 500, buttons = 1\<rparr> ''u''
            (sampleEngine ''c1'' False)))))"
proof -
  have h: "\<not> isPanning (sampleEngine ''c1'' False)" by code_simp
  have f: "activeTool (sampleEngine ''c1'' False) = Selection"
    "timers (host (sampleEngine ''c1'' False)) = []"
    "timerCount (host (sampleEngine ''c1'' False)) = 0"
    "now (host (sampleEngine ''c1'' False)) = 0"
    "shapes (sampleEngine ''c1'' False) = threeShapes"
    by code_simp+
  show ?thesis
    using h f pointer_up_always_persists [OF h, of sampleOps
        "\<lparr>clientX = 700, clientY = 500, buttons = 1\<rparr>" "''u''"]
    by simp
qed

subsection \<open>Replacing the scene\<close>

text \<open>
  \<open>loadElements\<close> does not touch the selection controller. On the sample engine with
  its first shape selected, replacing the scene by the empty one leaves that shape
  selected, and the frame drawn shows its selection box over an empty scene.
\<close>

theorem loadElements_selection_counterexample:
  "getSelectedShape sampleOps (selectionController shapeSelected)
     = Some (sampleRect ''a'' 10 10 100 50)
   \<and> shapes (loadElements sampleOps [] shapeSelected) = []
   \<and> getSelectedShape sampleOps (selectionController (loadElements sampleOps [] shapeSelected))
     = Some (sampleRect ''a'' 10 10 100 50)
   \<and> frame_selectionBox (last (frames (host (loadElements sampleOps [] shapeSelected))))
     = Some (10, 10, 110, 60)"
  by code_simp

text \<open>
  C7 (\<open>loadElements\<close> postcondition), as the code has it. \<open>loadElements\<close> replaces the
  scene wholesale with the given sequence and draws it; it sets no timer and writes
  neither to the remote store nor to \<open>localStorage\<close>; it leaves the selection
  controller as it was.
\<close>

theorem loadElements_postcondition:
  "shapes (loadElements sc elements e) = elements
   \<and> timers (host (loadElements sc elements e)) = timers (host e)
   \<and> saveTimeoutId (loadElements sc elements e) = saveTimeoutId e
   \<and> remoteWrites (host (loadElements sc elements e)) = remoteWrites (host e)
   \<and> inflightSaves (host (loadElements sc elements e)) = inflightSaves (host e)
   \<and> localStorage (host (loadElements sc elements e)) = localStorage (host e)
   \<and> selectionController (loadElements sc elements e) = selectionController e
   \<and> frame_shapes (last (frames (host (loadElements sc elements e)))) = elements"
  by (simp add: loadElements_def render_frames)

subsection \<open>The eraser\<close>

text \<open>
  On pointer-down and on pointer-move with the primary button held, the eraser keeps
  exactly the shapes the pointer's world position does not hit, in their order and as
  they are. Pointer-down always calls \<open>save\<close>; pointer-move calls it if and only if a
  shape was removed.
\<close>

lemma eraser_pointer_down:
  assumes "activeTool e = Eraser"
    and "getWorldPos ev (e\<lparr>cachedCanvasRect := Some (canvasRect (host e))\<rparr>) = (x, y)"
  shows "shapes (handleMouseDown sc ev uid e) = filter (\<lambda>s. \<not> isPointInShape sc x y s) (shapes e)"
    and "(Suc (timerCount (host e)), now (host e) + 500)
           \<in> set (timers (host (handleMouseDown sc ev uid e)))"
proof -
  let ?e0 = "e\<lparr>cachedCanvasRect := Some (canvasRect (host e)),
                lastMouseX := clientX ev, lastMouseY := clientY ev\<rparr>"
  have w: "getWorldPos ev ?e0 = (x, y)"
    using assms(2) by (simp add: getWorldPos_def)
  have d: "handleMouseDown sc ev uid e
      = render sc (save (?e0\<lparr>startX := x, startY := y, shapes := eraseAt sc x y (shapes e)\<rparr>))"
    using assms(1) w by (simp add: handleMouseDown_def Let_def)
  show "shapes (handleMouseDown sc ev uid e) = filter (\<lambda>s. \<not> isPointInShape sc x y s) (shapes e)"
    by (simp add: d eraseAt_def)
  show "(Suc (timerCount (host e)), now (host e) + 500)
           \<in> set (timers (host (handleMouseDown sc ev uid e)))"
    using save_schedules [of "?e0\<lparr>startX := x, startY := y, shapes := eraseAt sc x y (shapes e)\<rparr>"]
    by (simp add: d)
qed

lemma filter_shorter: "length (filter P xs) < length xs \<longleftrightarrow> filter P xs \<noteq> xs"
proof
  assume "length (filter P xs) < length xs"
  then show "filter P xs \<noteq> xs" by auto
next
  assume "filter P xs \<noteq> xs"
  then obtain x where "x \<in> set xs" "\<not> P x" by (auto simp: filter_id_conv)
  then show "length (filter P xs) < length xs" by (rule length_filter_less)
qed

lemma eraser_pointer_move:
  assumes "activeTool e = Eraser" and "buttons ev = 1"
    and "getWorldPos ev e = (x, y)"
  shows "shapes (handleMouseMove sc ev e) = filter (\<lambda>s. \<not> isPointInShape sc x y s) (shapes e)"
    and "timerCount (host (handleMouseMove sc ev e)) =
           (if shapes (handleMouseMove sc ev e) \<noteq> shapes e then Suc (timerCount (host e))
            else timerCount (host e))"
    and "shapes (handleMouseMove sc ev e) = shapes e
           \<Longrightarrow> timers (host (handleMouseMove sc ev e)) = timers (host e)"
proof -
  let ?e0 = "e\<lparr>lastMouseX := clientX ev, lastMouseY := clientY ev\<rparr>"
  let ?ss = "filter (\<lambda>s. \<not> isPointInShape sc x y s) (shapes e)"
  have w: "getWorldPos ev ?e0 = (x, y)"
    using assms(3) by (simp add: getWorldPos_def split: option.splits)
  have m: "handleMouseMove sc ev e
      = (if ?ss \<noteq> shapes e then render sc (save (?e0\<lparr>shapes := ?ss\<rparr>)) else ?e0\<lparr>shapes := ?ss\<rparr>)"
    using assms(1,2) w by (simp add: handleMouseMove_def Let_def eraseAt_def filter_shorter)
  show s: "shapes (handleMouseMove sc ev e) = ?ss"
    by (simp add: m)
  show "timerCount (host (handleMouseMove sc ev e)) =
           (if shapes (handleMouseMove sc ev e) \<noteq> shapes e then Suc (timerCount (host e))
            else timerCount (host e))"
    unfolding s by (simp add: m)
  show "timers (host (handleMouseMove sc ev e)) = timers (host e)"
    if "shapes (handleMouseMove sc ev e) = shapes e"
    using that unfolding s by (simp add: m)
qed

text \<open>
  C6 (eraser semantics) at a pointer-down that hits nothing. The sample engine, eraser
  chosen, no timer pending: pointer-down at a point outside every shape leaves the scene
  as it is and yet sets the debounce timer; a pointer-move at that point with the button
  held sets none.
\<close>

theorem eraser_pointer_down_saves_unchanged_scene:
  "activeTool erasing = Eraser
   \<and> timers (host erasing) = []
   \<and> shapes (handleMouseDown sampleOps \<lparr>clientX = 700, clientY = 500, buttons = 1\<rparr> ''u'' erasing)
       = shapes erasing
   \<and> timers (host (handleMouseDown sampleOps \<lparr>clientX = 700, clientY = 500, buttons = 1\<rparr> ''u''
         erasing)) = [(1, 500)]
   \<and> timers (host (handleMouseMove sampleOps \<lparr>clientX = 700, clientY = 500, buttons = 1\<rparr>
         erasing)) = []"
  by code_simp

subsection \<open>Debounce\<close>

lemma save_alt:
  "save e = e\<lparr>saveTimeoutId := Some (Suc (timerCount (host e))),
             host := (host e)\<lparr>timers := timers (host (save e)),
                               timerCount := Suc (timerCount (host e))\<rparr>\<rparr>"
  by (cases "saveTimeoutId e")
     (simp_all add: save_def setTimeout_def clearTimeout_def Let_def)

lemma save_render_timers: "timers (host (save (render sc e))) = timers (host (save e))"
  by (cases "saveTimeoutId e")
     (simp_all add: save_def setTimeout_def clearTimeout_def Let_def)

lemma save_render_commute: "save (render sc e) = render sc (save e)"
proof -
  define T where "T = timers (host (save e))"
  define n where "n = Suc (timerCount (host e))"
  have s: "save e = e\<lparr>saveTimeoutId := Some n, host := (host e)\<lparr>timers := T, timerCount := n\<rparr>\<rparr>"
    unfolding T_def n_def by (rule save_alt)
  have "save (render sc e)
      = (render sc e)\<lparr>saveTimeoutId := Some n,
           host := (host (render sc e))\<lparr>timers := T, timerCount := n\<rparr>\<rparr>"
    using save_alt [of "render sc e"] by (simp add: save_render_timers T_def n_def)
  also have "\<dots> = render sc (e\<lparr>saveTimeoutId := Some n,
      host := (host e)\<lparr>timers := T, timerCount := n\<rparr>\<rparr>)"
    by (simp add: render_def renderTransform_def dprOf_def Let_def)
  finally show ?thesis by (simp add: s [symmetric])
qed

lemma addShapes_mutate: "addShapes sc elements e = mutate sc (\<lambda>ss. ss @ elements) e"
  by (simp add: addShapes_def mutate_def save_render_commute)

lemma clear_mutate: "clear sc e = mutate sc (\<lambda>ss. []) e"
  by (simp add: clear_def mutate_def)

lemma mutate_fields:
  "shapes (mutate sc f e) = f (shapes e)"
  "canvasId (mutate sc f e) = canvasId e"
  "readOnly (mutate sc f e) = readOnly e"
  "now (host (mutate sc f e)) = now (host e)"
  "remoteWrites (host (mutate sc f e)) = remoteWrites (host e)"
  "inflightSaves (host (mutate sc f e)) = inflightSaves (host e)"
  "localStorage (host (mutate sc f e)) = localStorage (host e)"
  by (simp_all add: mutate_def)

lemma mutate_armed:
  assumes "timersOk e"
  shows "armed (mutate sc f e)"
proof -
  have "timersOk (e\<lparr>shapes := f (shapes e)\<rparr>)"
    using assms by (simp add: timersOk_def)
  from save_timers [OF this] show ?thesis
    by (simp add: armed_def mutate_def)
qed

lemma elapse_quiet:
  assumes "armed e" and "d < 500"
  shows "elapse d e = e\<lparr>host := (host e)\<lparr>now := now (host e) + d\<rparr>\<rparr>"
proof -
  from assms(1) obtain i where i: "saveTimeoutId e = Some i" "i \<noteq> 0"
    "timers (host e) = [(i, now (host e) + 500)]"
    by (auto simp: armed_def split: option.splits)
  have "(host e)\<lparr>now := now (host e) + d, timers := timers (host e)\<rparr>
      = (host e)\<lparr>now := now (host e) + d\<rparr>"
    by simp
  then show ?thesis
    using assms(2) i(3) by (simp add: elapse_def Let_def)
qed

lemma elapse_fire:
  assumes "armed e" and "500 \<le> d"
  shows "elapse d e
    = persistToStorage (e\<lparr>host := (host e)\<lparr>now := now (host e) + d, timers := []\<rparr>\<rparr>)"
proof -
  from assms(1) obtain i where i: "timers (host e) = [(i, now (host e) + 500)]"
    by (auto simp: armed_def split: option.splits)
  show ?thesis
    using assms(2) i by (simp add: elapse_def Let_def)
qed

lemma quiet_timersOk:
  assumes "armed e" and "d < 500"
  shows "timersOk (elapse d e)"
  using assms
  by (auto simp: elapse_quiet timersOk_def armed_def split: option.splits)

lemma burst_keeps:
  assumes "armed e" and "list_all (\<lambda>m. fst m < 500) ms"
  shows "armed (burst sc ms e)
    \<and> shapes (burst sc ms e) = fold snd ms (shapes e)
    \<and> remoteWrites (host (burst sc ms e)) = remoteWrites (host e)
    \<and> canvasId (burst sc ms e) = canvasId e
    \<and> readOnly (burst sc ms e) = readOnly e"
  using assms
proof (induction ms arbitrary: e)
  case Nil
  then show ?case by simp
next
  case (Cons m ms)
  obtain gap f where m: "m = (gap, f)" by (cases m)
  from Cons.prems m have gap: "gap < 500" and rest: "list_all (\<lambda>m. fst m < 500) ms"
    by simp_all
  let ?e1 = "mutate sc f (elapse gap e)"
  have a1: "armed ?e1"
    by (rule mutate_armed) (rule quiet_timersOk [OF Cons.prems(1) gap])
  have q: "elapse gap e = e\<lparr>host := (host e)\<lparr>now := now (host e) + gap\<rparr>\<rparr>"
    by (rule elapse_quiet [OF Cons.prems(1) gap])
  have f1: "shapes ?e1 = f (shapes e)" "remoteWrites (host ?e1) = remoteWrites (host e)"
    "canvasId ?e1 = canvasId e" "readOnly ?e1 = readOnly e"
    by (simp_all add: mutate_fields q)
  from Cons.IH [OF a1 rest] f1 show ?case
    by (simp add: m)
qed

text \<open>
  With the canvas identifier \<open>undefined\<close> the burst ends without a remote write: on such
  a sample engine, which is not read-only, \<open>addShapes\<close> changes the scene and sets the
  timer, the timer fires after 500 ms, and nothing has been written remotely.
\<close>

theorem debounce_coalescing_counterexample:
  "readOnly (sampleEngine ''undefined'' False) = False
   \<and> shapes (addShapes sampleOps [sampleRect ''d'' 0 0 1 1] (sampleEngine ''undefined'' False))
       = threeShapes @ [sampleRect ''d'' 0 0 1 1]
   \<and> timers (host (addShapes sampleOps [sampleRect ''d'' 0 0 1 1]
         (sampleEngine ''undefined'' False))) = [(1, 500)]
   \<and> timers (host (elapse 500 (addShapes sampleOps [sampleRect ''d'' 0 0 1 1]
         (sampleEngine ''undefined'' False)))) = []
   \<and> remoteWrites (host (elapse 500 (addShapes sampleOps [sampleRect ''d'' 0 0 1 1]
         (sampleEngine ''undefined'' False)))) = []"
  by code_simp

text \<open>
  C3 (debounce coalescing), as the code has it. In an engine whose pending timers are
  the one \<open>saveTimeoutId\<close> names: \<open>save\<close> cancels what is pending and leaves exactly one
  timer, due 500 ms from now; no remote write is made before those 500 ms have passed;
  and after a first mutation followed by any burst of mutations, each less than 500 ms
  after the one before, and then 500 ms or more of quiet, the timer has fired once. It
  made one remote write, carrying the scene after the last mutation, unless the canvas
  identifier is empty or \<open>undefined\<close> or the engine is read-only: then it made none.
\<close>

theorem debounce_coalescing:
  assumes "timersOk e" and "list_all (\<lambda>m. fst m < 500) ms" and "500 \<le> d"
  shows "timers (host (save e)) = [(Suc (timerCount (host e)), now (host e) + 500)]
    \<and> (\<forall>d' < 500. remoteWrites (host (elapse d' (mutate sc f e))) = remoteWrites (host e))
    \<and> shapes (burst sc ms (mutate sc f e)) = fold snd ms (f (shapes e))
    \<and> remoteWrites (host (elapse d (burst sc ms (mutate sc f e))))
        = remoteWrites (host e)
          @ (if canvasId e = [] \<or> canvasId e = ''undefined'' \<or> readOnly e then []
             else [(canvasId e, shapes (burst sc ms (mutate sc f e)))])"
proof -
  let ?e0 = "mutate sc f e"
  let ?b = "burst sc ms ?e0"
  have a0: "armed ?e0" by (rule mutate_armed [OF assms(1)])
  have 1: "timers (host (save e)) = [(Suc (timerCount (host e)), now (host e) + 500)]"
    by (rule save_timers [OF assms(1)])
  have 2: "remoteWrites (host (elapse d' ?e0)) = remoteWrites (host e)" if "d' < 500" for d'
    by (simp add: elapse_quiet [OF a0 that] mutate_fields)
  from burst_keeps [OF a0 assms(2), of sc]
  have b: "armed ?b" "shapes ?b = fold snd ms (f (shapes e))"
    "remoteWrites (host ?b) = remoteWrites (host e)" "canvasId ?b = canvasId e"
    "readOnly ?b = readOnly e"
    by (simp_all add: mutate_fields)
  have 4: "remoteWrites (host (elapse d ?b)) = remoteWrites (host e)
          @ (if canvasId e = [] \<or> canvasId e = ''undefined'' \<or> readOnly e then []
             else [(canvasId e, shapes ?b)])"
    using b(3,4,5) by (simp add: elapse_fire [OF b(1) assms(3)] persistToStorage_def)
  from 1 2 b(2) 4 show ?thesis by blast
qed

theorem debounce_coalescing_witness:
  "timersOk (sampleEngine ''c1'' False)
   \<and> list_all (\<lambda>m. fst m < 500)
        [(100 :: nat, \<lambda>ss :: shape list. []), (499, \<lambda>ss. ss @ [sampleRect ''e'' 5 5 1 1])]
   \<and> (500 :: nat) \<le> 500
   \<and> elapse 500 (addShapes sampleOps [sampleRect ''e'' 5 5 1 1]
        (elapse 499 (clear sampleOps
          (elapse 100 (addShapes sampleOps [sampleRect ''d'' 0 0 1 1]
            (sampleEngine ''c1'' False))))))
       = elapse 500 (burst sampleOps
            [(100, \<lambda>ss. []), (499, \<lambda>ss. ss @ [sampleRect ''e'' 5 5 1 1])]
            (mutate sampleOps (\<lambda>ss. ss @ [sampleRect ''d'' 0 0 1 1]) (sampleEngine ''c1'' False)))
   \<and> remoteWrites (host (elapse 500 (burst sampleOps
            [(100, \<lambda>ss. []), (499, \<lambda>ss. ss @ [sampleRect ''e'' 5 5 1 1])]
            (mutate sampleOps (\<lambda>ss. ss @ [sampleRect ''d'' 0 0 1 1]) (sampleEngine ''c1'' False)))))
       = [(''c1'', [sampleRect ''e'' 5 5 1 1])]"
proof -
  have h1: "timersOk (sampleEngine ''c1'' False)" by code_simp
  have h2: "list_all (\<lambda>m. fst m < 500)
        [(100 :: nat, \<lambda>ss :: shape list. []), (499, \<lambda>ss. ss @ [sampleRect ''e'' 5 5 1 1])]"
    by simp
  have h3: "(500 :: nat) \<le> 500" by simp
  have f: "canvasId (sampleEngine ''c1'' False) = ''c1''"
    "readOnly (sampleEngine ''c1'' False) = False"
    "remoteWrites (host (sampleEngine ''c1'' False)) = []"
    by code_simp+
  have api: "elapse 500 (addShapes sampleOps [sampleRect ''e'' 5 5 1 1]
        (elapse 499 (clear sampleOps
          (elapse 100 (addShapes sampleOps [sampleRect ''d'' 0 0 1 1]
            (sampleEngine ''c1'' False))))))
       = elapse 500 (burst sampleOps
            [(100, \<lambda>ss. []), (499, \<lambda>ss. ss @ [sampleRect ''e'' 5 5 1 1])]
            (mutate sampleOps (\<lambda>ss. ss @ [sampleRect ''d'' 0 0 1 1]) (sampleEngine ''c1'' False)))"
    by (simp add: addShapes_mutate clear_mutate)
  from debounce_coalescing [OF h1 h2 h3, of sampleOps "\<lambda>ss. ss @ [sampleRect ''d'' 0 0 1 1]"]
  have "remoteWrites (host (elapse 500 (burst sampleOps
            [(100, \<lambda>ss. []), (499, \<lambda>ss. ss @ [sampleRect ''e'' 5 5 1 1])]
            (mutate sampleOps (\<lambda>ss. ss @ [sampleRect ''d'' 0 0 1 1]) (sampleEngine ''c1'' False)))))
       = [(''c1'', [sampleRect ''e'' 5 5 1 1])]"
    by (simp add: f)
  with h1 h2 h3 api show ?thesis by blast
qed

subsection \<open>The timer invariant\<close>

text \<open>
  The hypothesis of the debounce theorem holds in every engine the constructor builds on
  a host without timers, and whatever happens to an engine keeps it.
\<close>

lemma timersOk_render [simp]: "timersOk (render sc e) = timersOk e"
  by (simp add: timersOk_def)

lemma timersOk_save [simp]: "timersOk e \<Longrightarrow> timersOk (save e)"
  by (simp add: timersOk_def save_timers)

lemma timersOk_persistToStorage [simp]: "timersOk (persistToStorage e) = timersOk e"
  by (simp add: timersOk_def)

lemma timersOk_engine_update [simp]:
  "timersOk (e\<lparr>shapes := a\<rparr>) = timersOk e"
  "timersOk (e\<lparr>selectionController := b\<rparr>) = timersOk e"
  "timersOk (e\<lparr>cachedCanvasRect := c\<rparr>) = timersOk e"
  "timersOk (e\<lparr>lastMouseX := d\<rparr>) = timersOk e"
  "timersOk (e\<lparr>lastMouseY := d\<rparr>) = timersOk e"
  "timersOk (e\<lparr>startX := d\<rparr>) = timersOk e"
  "timersOk (e\<lparr>startY := d\<rparr>) = timersOk e"
  "timersOk (e\<lparr>panX := d\<rparr>) = timersOk e"
  "timersOk (e\<lparr>panY := d\<rparr>) = timersOk e"
  "timersOk (e\<lparr>scale := d\<rparr>) = timersOk e"
  "timersOk (e\<lparr>isPanning := f\<rparr>) = timersOk e"
  "timersOk (e\<lparr>isDrawing := f\<rparr>) = timersOk e"
  "timersOk (e\<lparr>activeTool := g\<rparr>) = timersOk e"
  by (simp_all add: timersOk_def)

lemma timersOk_host_update [simp]:
  "timers h = timers (host e) \<Longrightarrow> timersOk (e\<lparr>host := h\<rparr>) = timersOk e"
  by (simp add: timersOk_def)

lemma timersOk_elapse: "timersOk e \<Longrightarrow> timersOk (elapse d e)"
proof -
  assume ok: "timersOk e"
  let ?e1 = "e\<lparr>host := (host e)\<lparr>now := now (host e) + d,
      timers := filter (\<lambda>tm. \<not> snd tm \<le> now (host e) + d) (timers (host e))\<rparr>\<rparr>"
  have keep: "timersOk (fold (\<lambda>tm. persistToStorage) tms x) = timersOk x"
    for tms :: "(nat \<times> nat) list" and x :: "('a, 'b) engine"
    by (induction tms arbitrary: x) simp_all
  have "timersOk ?e1"
    using ok by (auto simp: timersOk_def list_all_iff)
  then show ?thesis
    by (simp add: elapse_def Let_def keep)
qed

lemma timersOk_step: "timersOk e \<Longrightarrow> timersOk (step sc stringify evt e)"
proof (cases evt)
  case (MouseDown ev uid)
  assume "timersOk e"
  then show ?thesis
    by (simp add: MouseDown step_def handleMouseDown_def handleTextEntry_def Let_def
        split: prod.split option.split)
next
  case (MouseMove ev)
  assume "timersOk e"
  then show ?thesis
    by (simp add: MouseMove step_def handleMouseMove_def Let_def
        split: prod.split option.split list.split)
next
  case MouseUp
  assume "timersOk e"
  then show ?thesis by (simp add: MouseUp step_def handleMouseUp_def Let_def)
next
  case (Blur i v uid)
  assume "timersOk e"
  then show ?thesis by (simp add: Blur step_def handleBlur_def Let_def)
next
  case (Elapse d)
  assume "timersOk e"
  then show ?thesis by (simp add: Elapse step_def timersOk_elapse)
next
  case (SaveSettled r)
  assume "timersOk e"
  then show ?thesis
    by (cases r) (simp_all add: SaveSettled step_def persistToStorage_await_def Let_def timersOk_def)
next
  case (LoadSettled r)
  assume "timersOk e"
  then show ?thesis
    by (cases r) (simp_all add: LoadSettled step_def loadFromFirestore_await_def Let_def)
qed (simp_all add: step_def setTool_def setScale_def addShapes_def loadElements_def clear_def
      resize_def)

lemma timersOk_run: "timersOk e \<Longrightarrow> timersOk (run sc stringify evts e)"
  unfolding run_def by (induction evts arbitrary: e) (simp_all add: timersOk_step)

lemma timersOk_new:
  "timers h = [] \<Longrightarrow> timersOk (CanvasEngine sc parse dflt ctrl h cid ro)"
  by (simp add: CanvasEngine_def init_def timersOk_def Let_def split: option.split)

subsection \<open>Read-only mode\<close>

lemma written_render [simp]: "written (render sc e) = written e"
  by (simp add: written_def)

lemma written_save [simp]: "written (save e) = written e"
  by (simp add: written_def)

lemma written_engine_update [simp]:
  "written (e\<lparr>shapes := a\<rparr>) = written e"
  "written (e\<lparr>selectionController := b\<rparr>) = written e"
  "written (e\<lparr>cachedCanvasRect := c\<rparr>) = written e"
  "written (e\<lparr>lastMouseX := d\<rparr>) = written e"
  "written (e\<lparr>lastMouseY := d\<rparr>) = written e"
  "written (e\<lparr>startX := d\<rparr>) = written e"
  "written (e\<lparr>startY := d\<rparr>) = written e"
  "written (e\<lparr>panX := d\<rparr>) = written e"
  "written (e\<lparr>panY := d\<rparr>) = written e"
  "written (e\<lparr>scale := d\<rparr>) = written e"
  "written (e\<lparr>isPanning := f\<rparr>) = written e"
  "written (e\<lparr>isDrawing := f\<rparr>) = written e"
  "written (e\<lparr>activeTool := g\<rparr>) = written e"
  by (simp_all add: written_def)

lemma written_host_update [simp]:
  "written (e\<lparr>host := (host e)\<lparr>cursor := a\<rparr>\<rparr>) = written e"
  "written (e\<lparr>host := (host e)\<lparr>textareas := b\<rparr>\<rparr>) = written e"
  "written (e\<lparr>host := (host e)\<lparr>consoleErrors := c\<rparr>\<rparr>) = written e"
  "written (e\<lparr>host := (host e)\<lparr>inflightLoads := d\<rparr>\<rparr>) = written e"
  "written (e\<lparr>host := (host e)\<lparr>canvasRect := r, devicePixelRatio := p\<rparr>\<rparr>) = written e"
  by (simp_all add: written_def)

lemma handleMouseDown_written:
  "readOnly (handleMouseDown sc ev uid e) = readOnly e"
  "written (handleMouseDown sc ev uid e) = written e"
  by (simp_all add: handleMouseDown_def handleTextEntry_def Let_def written_def
      split: prod.split option.split)


lemma handleMouseMove_written:
  "readOnly (handleMouseMove sc ev e) = readOnly e"
  "written (handleMouseMove sc ev e) = written e"
  by (simp_all add: handleMouseMove_def Let_def written_def
      split: prod.split option.split list.split)

lemma handleMouseUp_written:
  "readOnly (handleMouseUp sc e) = readOnly e"
  "written (handleMouseUp sc e) = written e"
  by (simp_all add: handleMouseUp_def Let_def written_def)

lemma handleBlur_written:
  "readOnly (handleBlur sc i v uid e) = readOnly e"
  "written (handleBlur sc i v uid e) = written e"
  by (simp_all add: handleBlur_def Let_def written_def)

lemma api_written:
  "readOnly (setTool sc tool e) = readOnly e" "written (setTool sc tool e) = written e"
  "readOnly (setScale sc z e) = readOnly e" "written (setScale sc z e) = written e"
  "readOnly (addShapes sc els e) = readOnly e" "written (addShapes sc els e) = written e"
  "readOnly (loadElements sc els e) = readOnly e" "written (loadElements sc els e) = written e"
  "readOnly (clear sc e) = readOnly e" "written (clear sc e) = written e"
  "readOnly (resize sc e) = readOnly e" "written (resize sc e) = written e"
  by (simp_all add: setTool_def setScale_def addShapes_def loadElements_def clear_def
      resize_def written_def)

lemma loadFromFirestore_await_written:
  "readOnly (loadFromFirestore_await sc r e) = readOnly e"
  "written (loadFromFirestore_await sc r e) = written e"
  by (simp_all add: loadFromFirestore_await_def Let_def written_def split: fetched.split)

lemma elapse_readOnly:
  assumes "readOnly e"
  shows "readOnly (elapse d e)" and "written (elapse d e) = written e"
proof -
  let ?e1 = "e\<lparr>host := (host e)\<lparr>now := now (host e) + d,
      timers := filter (\<lambda>tm. \<not> snd tm \<le> now (host e) + d) (timers (host e))\<rparr>\<rparr>"
  have "persistenceOff ?e1" using assms by (simp add: persistenceOff_def)
  then have "elapse d e = ?e1"
    by (simp add: elapse_def Let_def fold_persist_off)
  then show "readOnly (elapse d e)" and "written (elapse d e) = written e"
    using assms by (simp_all add: written_def)
qed

lemma step_readOnly:
  assumes "readOnly e" and "inflightSaves (host e) = 0"
  shows "readOnly (step sc stringify evt e)" and "written (step sc stringify evt e) = written e"
  using assms
  by (cases evt;
      simp add: step_def handleMouseDown_written handleMouseMove_written handleMouseUp_written
        handleBlur_written api_written loadFromFirestore_await_written elapse_readOnly)+

text \<open>
  The listeners do not look at \<open>readOnly\<close>. On the read-only sample engine a pointer-up
  sets the debounce timer; a pointer-down with the rectangle tool appends a shape; and
  with the selection tool and the sample controller, pressing on the first shape and
  moving the pointer drags that shape.
\<close>

theorem read_only_counterexample:
  "readOnly (sampleEngine ''c1'' True)
   \<and> shapes (sampleEngine ''c1'' True) = threeShapes
   \<and> timers (host (sampleEngine ''c1'' True)) = []
   \<and> timers (host (handleMouseUp sampleOps (sampleEngine ''c1'' True))) = [(1, 500)]
   \<and> shapes (handleMouseDown sampleOps \<lparr>clientX = 20, clientY = 20, buttons = 1\<rparr> ''u''
        (setTool sampleOps RectangleTool (sampleEngine ''c1'' True)))
       = threeShapes @ [sampleRect ''u'' 20 20 0 0]
   \<and> shapes (handleMouseMove sampleOps \<lparr>clientX = 50, clientY = 40, buttons = 1\<rparr>
        (handleMouseDown sampleOps \<lparr>clientX = 20, clientY = 20, buttons = 1\<rparr> ''u''
           (sampleEngine ''c1'' True)))
       = [sampleRect ''a'' 40 30 100 50, sampleRect ''b'' 200 10 40 40, sampleRect ''c'' 10 200 5 5]"
  by code_simp

text \<open>
  C5 (read-only mode), as the code has it. In a read-only engine with no remote write
  in flight, whatever happens (pointer events, blurs, API calls, time passing, remote
  calls settling), no remote write is ever made or in flight and \<open>localStorage\<close> is
  never written.
\<close>

theorem read_only_never_writes:
  assumes "readOnly e" and "inflightSaves (host e) = 0"
  shows "remoteWrites (host (run sc stringify evts e)) = remoteWrites (host e)
    \<and> inflightSaves (host (run sc stringify evts e)) = 0
    \<and> localStorage (host (run sc stringify evts e)) = localStorage (host e)
    \<and> readOnly (run sc stringify evts e)"
proof -
  have "readOnly (fold (step sc stringify) evts e)
      \<and> written (fold (step sc stringify) evts e) = written e"
    using assms
  proof (induction evts arbitrary: e)
    case Nil
    then show ?case by simp
  next
    case (Cons evt evts)
    have r: "readOnly (step sc stringify evt e)"
      by (rule step_readOnly(1) [OF Cons.prems])
    have w: "written (step sc stringify evt e) = written e"
      by (rule step_readOnly(2) [OF Cons.prems])
    have i: "inflightSaves (host (step sc stringify evt e)) = 0"
      using w Cons.prems(2) by (simp add: written_def)
    from Cons.IH [OF r i] w show ?case by simp
  qed
  then show ?thesis using assms(2) by (simp add: run_def written_def)
qed

theorem read_only_never_writes_witness:
  "readOnly (sampleEngine ''c1'' True)
   \<and> inflightSaves (host (sampleEngine ''c1'' True)) = 0
   \<and> shapes (run sampleOps sampleStringify
        [SetTool Eraser, MouseDown \<lparr>clientX = 20, clientY = 20, buttons = 1\<rparr> ''u'', MouseUp,
         Elapse 500, SaveSettled Rejected, Clear, Elapse 1000]
        (sampleEngine ''c1'' True)) = []
   \<and> remoteWrites (host (run sampleOps sampleStringify
        [SetTool Eraser, MouseDown \<lparr>clientX = 20, clientY = 20, buttons = 1\<rparr> ''u'', MouseUp,
         Elapse 500, SaveSettled Rejected, Clear, Elapse 1000]
        (sampleEngine ''c1'' True))) = []
   \<and> localStorage (host (run sampleOps sampleStringify
        [SetTool Eraser, MouseDown \<lparr>clientX = 20, clientY = 20, buttons = 1\<rparr> ''u'', MouseUp,
         Elapse 500, SaveSettled Rejected, Clear, Elapse 1000]
        (sampleEngine ''c1'' True))) ''procastify_canvas_c1'' = Some ''a;b;c;''"
proof -
  have h1: "readOnly (sampleEngine ''c1'' True)" by code_simp
  have h2: "inflightSaves (host (sampleEngine ''c1'' True)) = 0" by code_simp
  have f: "remoteWrites (host (sampleEngine ''c1'' True)) = []"
    "localStorage (host (sampleEngine ''c1'' True)) ''procastify_canvas_c1'' = Some ''a;b;c;''"
    by code_simp+
  have s: "shapes (run sampleOps sampleStringify
        [SetTool Eraser, MouseDown \<lparr>clientX = 20, clientY = 20, buttons = 1\<rparr> ''u'', MouseUp,
         Elapse 500, SaveSettled Rejected, Clear, Elapse 1000]
        (sampleEngine ''c1'' True)) = []"
    by code_simp
  show ?thesis
    using h1 h2 f s
      read_only_never_writes [OF h1 h2, of sampleOps sampleStringify
        "[SetTool Eraser, MouseDown \<lparr>clientX = 20, clientY = 20, buttons = 1\<rparr> ''u'', MouseUp,
          Elapse 500, SaveSettled Rejected, Clear, Elapse 1000]"]
    by simp
qed

end
